theory Spec2Isabelle
  imports Main "HOL-Library.Multiset" "HOL-Library.Sublist"
begin

section \<open>The dashboard grid engine of inkdo/rift\<close>

text \<open>
  A shallow embedding of \<^verbatim>\<open>src/artifacts/dashboard/utils.ts\<close> (coordinate codec,
  geometry checks) and of \<^verbatim>\<open>src/lib/dashboard/serialization.ts\<close> (JSON
  normalisation, layout migration).

  Conventions of the embedding.
  \<^item> A number of the grid (a column, a row, a width, a height) is an \<^typ>\<open>int\<close>: the
    data model declares every numeric field an integer, and fractions are not
    modelled. \<^verbatim>\<open>NaN\<close>, which \<^verbatim>\<open>Number(...)\<close> produces from values that are no number,
    is \<open>None\<close> of \<^typ>\<open>int option\<close>.
  \<^item> The coordinate codec computes numbers as large as its input is long. Its numbers
    are doubles: integers with the rounding of the platform written out, and the
    infinities.
  \<^item> A \<^verbatim>\<open>throw new Error(msg)\<close> is the value \<open>Inl (Error msg)\<close> of a sum type;
    \<open>Inr\<close> carries the value returned.
  \<^item> Strings that the code only compares, copies or puts into messages are HOL
    strings. Strings whose characters the code inspects (\<^verbatim>\<open>charCodeAt\<close>, regular
    expressions, \<^verbatim>\<open>toUpperCase\<close>) are lists of UTF-16 code units, each a \<^typ>\<open>nat\<close>.
\<close>

subsection \<open>Errors and code units\<close>

datatype error = Error string

type_synonym units = "nat list"

text \<open>The code units of an ASCII literal.\<close>

definition units_of :: "string \<Rightarrow> units" where
  "units_of s = map of_char s"

definition isUpperAZ :: "nat \<Rightarrow> bool" where
  "isUpperAZ c = (65 \<le> c \<and> c \<le> 90)"

definition isLowerAZ :: "nat \<Rightarrow> bool" where
  "isLowerAZ c = (97 \<le> c \<and> c \<le> 122)"

definition isDigit :: "nat \<Rightarrow> bool" where
  "isDigit c = (48 \<le> c \<and> c \<le> 57)"

text \<open>
  \<^verbatim>\<open>String.prototype.toUpperCase\<close> belongs to the platform, not to the repository. It
  maps character by character, and one character can become several: the upper case of
  U+00DF (sharp s, \<open>223\<close>) is the two letters \<^verbatim>\<open>SS\<close>. The model covers Basic Latin
  and the units whose upper case consists of the letters A to Z: U+00DF, U+0131
  (dotless i), U+017F (long s) and the ligatures U+FB00 to U+FB06. Every other unit
  stands for itself here: its upper case is no letter of A to Z either, which is all
  that \<open>letterToIndex\<close> asks of it.
\<close>

definition upperUnit :: "nat \<Rightarrow> units" where
  "upperUnit c =
     (if isLowerAZ c then [c - 32]
      else if c = 223 then [83, 83]
      else if c = 305 then [73]
      else if c = 383 then [83]
      else if c = 64256 then [70, 70]
      else if c = 64257 then [70, 73]
      else if c = 64258 then [70, 76]
      else if c = 64259 then [70, 70, 73]
      else if c = 64260 then [70, 70, 76]
      else if c = 64261 then [83, 84]
      else if c = 64262 then [83, 84]
      else [c])"

definition toUpperCase :: "units \<Rightarrow> units" where
  "toUpperCase s = concat (map upperUnit s)"

subsection \<open>Numbers of the codec\<close>

text \<open>
  A JavaScript number is a double: a significand of 53 bits and an exponent. Every
  integer up to \<open>2 ^ 53\<close> in magnitude is a double; beyond, \<open>ulp a\<close> is the distance
  between the doubles around \<open>a\<close>, which doubles with each further bit of \<open>a\<close>.
  The result of an operation is the double nearest to the exact result and, of two
  that are equally near, the one whose significand is even: \<open>round_magnitude\<close> does
  so for a magnitude and \<open>fl\<close> for an integer. From \<open>2 ^ 1024\<close> on the result is an infinity.
\<close>

datatype number = Num int | Infinity | MinusInfinity

function ulp :: "int \<Rightarrow> int" where
  "ulp a = (if a < 2 ^ 53 then 1 else 2 * ulp (a div 2))"
  by pat_completeness auto
termination
  by (relation "measure nat") auto

declare ulp.simps [simp del]

definition round_magnitude :: "int \<Rightarrow> int" where
  "round_magnitude a =
     (let u = ulp a; q = a div u; r = a mod u
      in if u < 2 * r \<or> (2 * r = u \<and> odd q) then (q + 1) * u else q * u)"

definition fl :: "int \<Rightarrow> number" where
  "fl x =
     (let a = round_magnitude \<bar>x\<bar>
      in if 2 ^ 1024 \<le> a then (if x < 0 then MinusInfinity else Infinity)
         else Num (if x < 0 then - a else a))"

text \<open>
  \<^verbatim>\<open>x * k\<close> for a positive integer \<open>k\<close>, \<^verbatim>\<open>x + k\<close> for an integer \<open>k\<close>, and \<^verbatim>\<open>x < k\<close>.
\<close>

fun times_num :: "number \<Rightarrow> int \<Rightarrow> number" where
  "times_num (Num a) k = fl (a * k)"
| "times_num Infinity k = Infinity"
| "times_num MinusInfinity k = MinusInfinity"

fun plus_num :: "number \<Rightarrow> int \<Rightarrow> number" where
  "plus_num (Num a) k = fl (a + k)"
| "plus_num Infinity k = Infinity"
| "plus_num MinusInfinity k = MinusInfinity"

fun less_num :: "number \<Rightarrow> int \<Rightarrow> bool" where
  "less_num (Num a) k = (a < k)"
| "less_num Infinity k = False"
| "less_num MinusInfinity k = True"

subsection \<open>Coordinate codec (utils.ts)\<close>

text \<open>
  \<^verbatim>\<open>
  export function indexToLetter(index: number): string {
    if (index < 0) { throw new Error('Column index must be non-negative'); }
    let result = '';
    while (index >= 0) {
      result = String.fromCharCode(65 + (index % 26)) + result;
      index = Math.floor(index / 26) - 1;
    }
    return result;
  }
  \<close>
  The loop is a recursive function of the two variables it changes. It ends because
  \<open>index div 26 - 1 < index\<close> for \<open>0 \<le> index\<close>.

  The index is an integer. Up to \<open>2 ^ 53\<close> the loop computes with integers: the
  remainder \<^verbatim>\<open>index % 26\<close> is exact; the quotient \<^verbatim>\<open>index / 26\<close> is below \<open>2 ^ 49\<close>,
  where two neighbouring doubles are at most \<open>1/16\<close> apart, and the exact quotient is
  an integer or at least \<open>1/26\<close> below the next one, so that the rounded quotient
  lies between the same two integers and \<^verbatim>\<open>Math.floor\<close> gives \<open>index div 26\<close>; the
  difference is exact. Above \<open>2 ^ 53\<close> the quotient and the difference are rounded
  to other numbers. The model does not follow the loop there: the result \<open>None\<close>
  says that the code returns a string about which the model says nothing.
\<close>

function indexToLetter_loop :: "int \<Rightarrow> units \<Rightarrow> units option" where
  "indexToLetter_loop index result =
     (if 2 ^ 53 < index then None
      else if index \<ge> 0
      then indexToLetter_loop (index div 26 - 1) ((65 + nat (index mod 26)) # result)
      else Some result)"
  by pat_completeness auto
termination
  by (relation "measure (\<lambda>(index, result). nat (index + 1))") auto

declare indexToLetter_loop.simps [simp del]

definition indexToLetter :: "int \<Rightarrow> error + units option" where
  "indexToLetter index =
     (if index < 0 then Inl (Error ''Column index must be non-negative'')
      else Inr (indexToLetter_loop index []))"

text \<open>
  \<^verbatim>\<open>
  export function letterToIndex(letter: string): number {
    if (!letter || typeof letter !== 'string') {
      throw new Error('Letter must be a non-empty string');
    }
    const upperLetter = letter.toUpperCase();
    let result = 0;
    for (let i = 0; i < upperLetter.length; i++) {
      const charCode = upperLetter.charCodeAt(i);
      if (charCode < 65 || charCode > 90) {
        throw new Error('Letter must contain only alphabetic characters');
      }
      result = result * 26 + (charCode - 64);
    }
    return result - 1;
  }
  \<close>
  The argument is a string by its type, so \<^verbatim>\<open>!letter\<close> holds of the empty string only.
  The product, the sum and the difference are rounded each.
\<close>

fun letterToIndex_loop :: "units \<Rightarrow> number \<Rightarrow> error + number" where
  "letterToIndex_loop [] result = Inr result"
| "letterToIndex_loop (charCode # rest) result =
     (if charCode < 65 \<or> charCode > 90
      then Inl (Error ''Letter must contain only alphabetic characters'')
      else letterToIndex_loop rest (plus_num (times_num result 26) (int charCode - 64)))"

definition letterToIndex :: "units \<Rightarrow> error + number" where
  "letterToIndex letter =
     (if letter = [] then Inl (Error ''Letter must be a non-empty string'')
      else case letterToIndex_loop (toUpperCase letter) (Num 0) of
             Inl e \<Rightarrow> Inl e
           | Inr result \<Rightarrow> Inr (plus_num result (- 1)))"

text \<open>
  \<^verbatim>\<open>
  export function parseCoordinate(coordinateString: string): GridCoordinate {
    if (!coordinateString || typeof coordinateString !== 'string') {
      throw new Error('Coordinate string must be a non-empty string');
    }
    const match = coordinateString.match(/^([A-Z]+)(\d+)$/);
    if (!match) {
      throw new Error('Invalid coordinate format. Expected format: A1, B2, etc.');
    }
    const [, column, rowStr] = match;
    const row = parseInt(rowStr, 10);
    if (row < 1) { throw new Error('Row number must be greater than 0'); }
    return { column, row };
  }
  \<close>
\<close>

record GridCoordinate =
  column :: units
  row :: number

text \<open>
  The regular expression \<^verbatim>\<open>/^([A-Z]+)(\d+)$/\<close>: the longest prefix of letters A to Z
  is the first group, and the rest has to be one or more digits 0 to 9 (without the
  \<^verbatim>\<open>u\<close> and \<^verbatim>\<open>m\<close> flags, \<^verbatim>\<open>\d\<close> is the ASCII digits and \<^verbatim>\<open>$\<close> the end of the
  string).
\<close>

definition match_coordinate :: "units \<Rightarrow> (units \<times> units) option" where
  "match_coordinate s =
     (let columnStr = takeWhile isUpperAZ s; rowStr = dropWhile isUpperAZ s
      in if columnStr \<noteq> [] \<and> rowStr \<noteq> [] \<and> list_all isDigit rowStr
         then Some (columnStr, rowStr) else None)"

text \<open>
  \<^verbatim>\<open>parseInt(rowStr, 10)\<close> on a string of decimal digits: the double nearest to the
  integer that the digits denote, \<open>decimal\<close>. (ECMAScript allows an implementation
  to take the digits after the twentieth for zeros. The model rounds the integer
  itself, as V8 does. Either way the result is the integer when that is at most
  \<open>2 ^ 53\<close>, and is at least 1 when the integer is.)
\<close>

definition decimal :: "units \<Rightarrow> int" where
  "decimal ds = foldl (\<lambda>acc d. acc * 10 + (int d - 48)) 0 ds"

definition parseInt10 :: "units \<Rightarrow> number" where
  "parseInt10 ds = fl (decimal ds)"

definition parseCoordinate :: "units \<Rightarrow> error + GridCoordinate" where
  "parseCoordinate coordinateString =
     (if coordinateString = []
      then Inl (Error ''Coordinate string must be a non-empty string'')
      else case match_coordinate coordinateString of
        None \<Rightarrow> Inl (Error ''Invalid coordinate format. Expected format: A1, B2, etc.'')
      | Some (columnStr, rowStr) \<Rightarrow>
          (let rowNum = parseInt10 rowStr
           in if less_num rowNum 1 then Inl (Error ''Row number must be greater than 0'')
              else Inr \<lparr>GridCoordinate.column = columnStr, GridCoordinate.row = rowNum\<rparr>))"

text \<open>
  The format that the specification gives for coordinates,
  \<^verbatim>\<open>^[A-Z]+[1-9][0-9]*$\<close>: letters, then a digit 1 to 9, then digits.
\<close>

definition spec_coordinate_format :: "units \<Rightarrow> bool" where
  "spec_coordinate_format s =
     (let letters = takeWhile isUpperAZ s; rest = dropWhile isUpperAZ s
      in letters \<noteq> [] \<and>
         (case rest of [] \<Rightarrow> False
          | d # ds \<Rightarrow> 49 \<le> d \<and> d \<le> 57 \<and> list_all isDigit ds))"

subsection \<open>The data model (types.ts)\<close>

text \<open>
  \<^verbatim>\<open>
  export interface GridLayout {
    columns: number; rows: number;
    cellSize: { width: number; height: number; };
  }
  export interface GridPosition { column: number; row: number; }
  export interface GridSize { width: number; height: number; }
  export interface Widget {
    id: string; type: WidgetType;
    position: GridPosition; size: GridSize;
    content: WidgetContent; config: WidgetConfig;
  }
  \<close>
  The fields \<^verbatim>\<open>id\<close> and \<^verbatim>\<open>size\<close> are \<open>id_w\<close> and \<open>size_w\<close> here (\<open>id\<close> and \<open>size\<close>
  are constants of HOL). The type of \<^verbatim>\<open>cellSize\<close> has the fields of \<^verbatim>\<open>GridSize\<close> and
  is that record.

  In JavaScript the \<^verbatim>\<open>position\<close> and the \<^verbatim>\<open>size\<close> of a widget are references to
  records that can be shared and assigned to. A widget is therefore polymorphic in
  what these two fields hold: the records themselves, for the functions that only
  read them, or their addresses in a store, for the functions that assign to them.
\<close>

text \<open>
  A JSON value: what \<^verbatim>\<open>JSON.parse\<close> returns, and what the \<^verbatim>\<open>any\<close>-typed fields
  \<^verbatim>\<open>content\<close> and \<^verbatim>\<open>config\<close> hold. An object is the list of its properties.
\<close>

datatype json =
    JNull
  | JBool bool
  | JNum int
  | JStr string
  | JArr "json list"
  | JObj "(string \<times> json) list"

record GridPosition =
  column :: int
  row :: int

record GridSize =
  width :: int
  height :: int

record GridLayout =
  columns :: int
  rows :: int
  cellSize :: GridSize

record ('p, 's) WidgetRec =
  id_w :: string
  type :: string
  position :: 'p
  size_w :: 's
  content :: json
  config :: json

type_synonym Widget = "(GridPosition, GridSize) WidgetRec"

subsection \<open>Geometry checks (utils.ts)\<close>

text \<open>
  \<^verbatim>\<open>
  export function isValidPosition(position: GridPosition, layout: GridLayout): boolean {
    return (position.column >= 0 && position.column < layout.columns &&
            position.row >= 0 && position.row < layout.rows);
  }
  export function isValidWidgetPlacement(widget: Widget, layout: GridLayout): boolean {
    const endColumn = widget.position.column + widget.size.width - 1;
    const endRow = widget.position.row + widget.size.height - 1;
    return (widget.position.column >= 0 && widget.position.row >= 0 &&
            endColumn < layout.columns && endRow < layout.rows);
  }
  \<close>
\<close>

definition isValidPosition :: "GridPosition \<Rightarrow> GridLayout \<Rightarrow> bool" where
  "isValidPosition pos layout =
     (column pos \<ge> 0 \<and> column pos < columns layout \<and>
      row pos \<ge> 0 \<and> row pos < rows layout)"

definition isValidWidgetPlacement :: "Widget \<Rightarrow> GridLayout \<Rightarrow> bool" where
  "isValidWidgetPlacement widget layout =
     (let endColumn = column (position widget) + width (size_w widget) - 1;
          endRow = row (position widget) + height (size_w widget) - 1
      in column (position widget) \<ge> 0 \<and> row (position widget) \<ge> 0 \<and>
         endColumn < columns layout \<and> endRow < rows layout)"

text \<open>
  \<^verbatim>\<open>
  export function doWidgetsOverlap(widget1: Widget, widget2: Widget): boolean {
    if (widget1.id === widget2.id) { return false; }
    const w1EndCol = widget1.position.column + widget1.size.width - 1;
    const w1EndRow = widget1.position.row + widget1.size.height - 1;
    const w2EndCol = widget2.position.column + widget2.size.width - 1;
    const w2EndRow = widget2.position.row + widget2.size.height - 1;
    return !(w1EndCol < widget2.position.column || widget1.position.column > w2EndCol ||
             w1EndRow < widget2.position.row || widget1.position.row > w2EndRow);
  }
  \<close>
\<close>

definition doWidgetsOverlap :: "Widget \<Rightarrow> Widget \<Rightarrow> bool" where
  "doWidgetsOverlap widget1 widget2 =
     (if id_w widget1 = id_w widget2 then False
      else
        let w1EndCol = column (position widget1) + width (size_w widget1) - 1;
            w1EndRow = row (position widget1) + height (size_w widget1) - 1;
            w2EndCol = column (position widget2) + width (size_w widget2) - 1;
            w2EndRow = row (position widget2) + height (size_w widget2) - 1
        in \<not> (w1EndCol < column (position widget2) \<or>
                column (position widget1) > w2EndCol \<or>
                w1EndRow < row (position widget2) \<or>
                row (position widget1) > w2EndRow))"

text \<open>
  The footprint of a widget, as the specification defines it: the cells of
  \<open>[column, column + width) \<times> [row, row + height)\<close>.
\<close>

definition footprint :: "Widget \<Rightarrow> (int \<times> int) set" where
  "footprint w =
     {(c, r). column (position w) \<le> c \<and> c < column (position w) + width (size_w w) \<and>
              row (position w) \<le> r \<and> r < row (position w) + height (size_w w)}"

subsection \<open>Layout migration (serialization.ts, second part)\<close>

text \<open>
  The store holds the position records and the size records that widgets refer to.
  A widget object of the program is a \<open>WidgetRef\<close>: its \<open>position\<close> and \<open>size_w\<close> are
  addresses. \<open>load\<close> reads the widget that a reference denotes in a store.
\<close>

type_synonym addr = nat

record store =
  positions :: "addr \<Rightarrow> GridPosition"
  sizes :: "addr \<Rightarrow> GridSize"

type_synonym WidgetRef = "(addr, addr) WidgetRec"

definition load :: "store \<Rightarrow> WidgetRef \<Rightarrow> Widget" where
  "load h w =
     \<lparr>id_w = id_w w, type = type w, position = positions h (position w),
      size_w = sizes h (size_w w), content = content w, config = config w\<rparr>"

text \<open>
  \<^verbatim>\<open>
  function adjustWidgetsToLayout(widgets: Widget[], layout: GridLayout): Widget[] {
    return widgets.map((widget) => {
      const adjustedWidget = { ...widget };
      if (widget.position.column >= layout.columns) {
        adjustedWidget.position.column = Math.max(0, layout.columns - widget.size.width);
      }
      if (widget.position.row >= layout.rows) {
        adjustedWidget.position.row = Math.max(0, layout.rows - widget.size.height);
      }
      if (widget.position.column + widget.size.width > layout.columns) {
        adjustedWidget.size.width = Math.max(1, layout.columns - widget.position.column);
      }
      if (widget.position.row + widget.size.height > layout.rows) {
        adjustedWidget.size.height = Math.max(1, layout.rows - widget.position.row);
      }
      adjustedWidget.size.width = Math.max(1, Math.min(6, adjustedWidget.size.width));
      adjustedWidget.size.height = Math.max(1, Math.min(6, adjustedWidget.size.height));
      return adjustedWidget;
    });
  }
  \<close>
  The spread \<^verbatim>\<open>{ ...widget }\<close> copies the six fields of the widget object, so
  \<^verbatim>\<open>adjustedWidget.position\<close> and \<^verbatim>\<open>widget.position\<close> are one record, and so are the two
  sizes. Each assignment below is an update of the store at that address, and each
  read of \<^verbatim>\<open>widget.position\<close> or \<^verbatim>\<open>widget.size\<close> reads the store as the assignments
  before it have left it.
\<close>

definition set_column :: "addr \<Rightarrow> int \<Rightarrow> store \<Rightarrow> store" where
  "set_column p v h = h\<lparr>positions := (positions h)(p := (positions h p)\<lparr>column := v\<rparr>)\<rparr>"

definition set_row :: "addr \<Rightarrow> int \<Rightarrow> store \<Rightarrow> store" where
  "set_row p v h = h\<lparr>positions := (positions h)(p := (positions h p)\<lparr>row := v\<rparr>)\<rparr>"

definition set_width :: "addr \<Rightarrow> int \<Rightarrow> store \<Rightarrow> store" where
  "set_width a v h = h\<lparr>sizes := (sizes h)(a := (sizes h a)\<lparr>width := v\<rparr>)\<rparr>"

definition set_height :: "addr \<Rightarrow> int \<Rightarrow> store \<Rightarrow> store" where
  "set_height a v h = h\<lparr>sizes := (sizes h)(a := (sizes h a)\<lparr>height := v\<rparr>)\<rparr>"

definition adjustWidget :: "GridLayout \<Rightarrow> WidgetRef \<Rightarrow> store \<Rightarrow> WidgetRef \<times> store" where
  "adjustWidget layout widget h0 =
     (let adjustedWidget = widget;
          h1 = (if column (positions h0 (position widget)) \<ge> columns layout
                then set_column (position adjustedWidget)
                       (max 0 (columns layout - width (sizes h0 (size_w widget)))) h0
                else h0);
          h2 = (if row (positions h1 (position widget)) \<ge> rows layout
                then set_row (position adjustedWidget)
                       (max 0 (rows layout - height (sizes h1 (size_w widget)))) h1
                else h1);
          h3 = (if column (positions h2 (position widget)) + width (sizes h2 (size_w widget))
                     > columns layout
                then set_width (size_w adjustedWidget)
                       (max 1 (columns layout - column (positions h2 (position widget)))) h2
                else h2);
          h4 = (if row (positions h3 (position widget)) + height (sizes h3 (size_w widget))
                     > rows layout
                then set_height (size_w adjustedWidget)
                       (max 1 (rows layout - row (positions h3 (position widget)))) h3
                else h3);
          h5 = set_width (size_w adjustedWidget)
                 (max 1 (min 6 (width (sizes h4 (size_w adjustedWidget))))) h4;
          h6 = set_height (size_w adjustedWidget)
                 (max 1 (min 6 (height (sizes h5 (size_w adjustedWidget))))) h5
      in (adjustedWidget, h6))"

text \<open>\<^verbatim>\<open>widgets.map\<close> calls the function on the widgets in order, on one store.\<close>

fun adjustWidgetsToLayout :: "WidgetRef list \<Rightarrow> GridLayout \<Rightarrow> store \<Rightarrow> WidgetRef list \<times> store" where
  "adjustWidgetsToLayout [] layout h = ([], h)"
| "adjustWidgetsToLayout (widget # rest) layout h =
     (let (adjustedWidget, h') = adjustWidget layout widget h;
          (adjustedRest, h'') = adjustWidgetsToLayout rest layout h'
      in (adjustedWidget # adjustedRest, h''))"

text \<open>
  \<^verbatim>\<open>
  export interface DashboardMetadata {
    createdAt: string; lastModified: string; theme: string;
    [key: string]: any;
  }
  export interface DashboardData {
    version: string; layout: GridLayout; widgets: Widget[]; metadata: DashboardMetadata;
  }
  \<close>
  The metadata record has the five fields that the specification's data model names
  and that every constructor of the repository writes, and the open-ended rest as
  \<open>extension\<close>. Their values are JSON values: normalisation stores whatever the input
  holds there, without a test of its type.
\<close>

record DashboardMetadata =
  createdAt :: json
  lastModified :: json
  theme :: json
  title :: json
  description :: json
  extension :: "(string \<times> json) list"

record 'w DashboardRec =
  version :: string
  layout :: GridLayout
  widgets :: "'w list"
  metadata :: DashboardMetadata

type_synonym DashboardData = "Widget DashboardRec"

type_synonym DashboardRef = "WidgetRef DashboardRec"

text \<open>
  \<^verbatim>\<open>
  export function updateDashboardLayout(dashboard: DashboardData, newLayout: GridLayout): DashboardData {
    const now = new Date().toISOString();
    const validatedLayout: GridLayout = {
      columns: Math.max(1, Math.min(12, newLayout.columns)),
      rows: Math.max(1, Math.min(12, newLayout.rows)),
      cellSize: {
        width: Math.max(100, Math.min(500, newLayout.cellSize.width)),
        height: Math.max(100, Math.min(500, newLayout.cellSize.height)),
      },
    };
    const adjustedWidgets = adjustWidgetsToLayout(dashboard.widgets, validatedLayout);
    return { ...dashboard, layout: validatedLayout, widgets: adjustedWidgets,
             metadata: { ...dashboard.metadata, lastModified: now } };
  }
  \<close>
  The reading of the clock is the parameter \<open>now\<close>. The function returns the new
  document and the store as it has left it.
\<close>

definition updateDashboardLayout ::
    "string \<Rightarrow> DashboardRef \<Rightarrow> GridLayout \<Rightarrow> store \<Rightarrow> DashboardRef \<times> store" where
  "updateDashboardLayout now dashboard newLayout h =
     (let validatedLayout =
            \<lparr>columns = max 1 (min 12 (columns newLayout)),
             rows = max 1 (min 12 (rows newLayout)),
             cellSize = \<lparr>width = max 100 (min 500 (width (cellSize newLayout))),
                         height = max 100 (min 500 (height (cellSize newLayout)))\<rparr>\<rparr>;
          (adjustedWidgets, h') = adjustWidgetsToLayout (widgets dashboard) validatedLayout h
      in (dashboard\<lparr>layout := validatedLayout, widgets := adjustedWidgets,
                      metadata := (metadata dashboard)\<lparr>lastModified := JStr now\<rparr>\<rparr>, h'))"

text \<open>
  \<^verbatim>\<open>
  export function getAffectedWidgets(widgets: Widget[], currentLayout: GridLayout, newLayout: GridLayout)
      : { unaffected: Widget[]; affected: Widget[]; removed: Widget[]; } {
    const unaffected: Widget[] = [];
    const affected: Widget[] = [];
    const removed: Widget[] = [];
    widgets.forEach((widget) => {
      const widgetEndCol = widget.position.column + widget.size.width;
      const widgetEndRow = widget.position.row + widget.size.height;
      if (widget.position.column >= newLayout.columns || widget.position.row >= newLayout.rows ||
          widgetEndCol > newLayout.columns || widgetEndRow > newLayout.rows) {
        if (widget.position.column >= newLayout.columns || widget.position.row >= newLayout.rows) {
          removed.push(widget);
        } else {
          affected.push(widget);
        }
      } else {
        unaffected.push(widget);
      }
    });
    return { unaffected, affected, removed };
  }
  \<close>
  The three arrays are local; \<^verbatim>\<open>push\<close> appends. The body assigns to no field of a
  widget, a position or a size, so the store that the function returns is the store
  it was given.
\<close>

record AffectedWidgets =
  unaffected :: "WidgetRef list"
  affected :: "WidgetRef list"
  removed :: "WidgetRef list"

fun getAffectedWidgets_forEach ::
    "store \<Rightarrow> GridLayout \<Rightarrow> WidgetRef list \<Rightarrow> AffectedWidgets \<Rightarrow> AffectedWidgets" where
  "getAffectedWidgets_forEach h newLayout [] acc = acc"
| "getAffectedWidgets_forEach h newLayout (widget # rest) acc =
     (let widgetEndCol = column (positions h (position widget)) + width (sizes h (size_w widget));
          widgetEndRow = row (positions h (position widget)) + height (sizes h (size_w widget))
      in getAffectedWidgets_forEach h newLayout rest
           (if column (positions h (position widget)) \<ge> columns newLayout \<or>
               row (positions h (position widget)) \<ge> rows newLayout \<or>
               widgetEndCol > columns newLayout \<or> widgetEndRow > rows newLayout
            then
              (if column (positions h (position widget)) \<ge> columns newLayout \<or>
                  row (positions h (position widget)) \<ge> rows newLayout
               then acc\<lparr>removed := removed acc @ [widget]\<rparr>
               else acc\<lparr>affected := affected acc @ [widget]\<rparr>)
            else acc\<lparr>unaffected := unaffected acc @ [widget]\<rparr>))"

definition getAffectedWidgets ::
    "WidgetRef list \<Rightarrow> GridLayout \<Rightarrow> GridLayout \<Rightarrow> store \<Rightarrow> AffectedWidgets \<times> store" where
  "getAffectedWidgets ws currentLayout newLayout h =
     (getAffectedWidgets_forEach h newLayout ws
        \<lparr>unaffected = [], affected = [], removed = []\<rparr>, h)"

subsection \<open>Values of JavaScript\<close>

text \<open>
  A value read from parsed JSON is a JSON value or \<^verbatim>\<open>undefined\<close>, which is \<open>None\<close>.
  \<open>truthy\<close> is the test of \<^verbatim>\<open>!x\<close>, \<^verbatim>\<open>x || y\<close> and \<^verbatim>\<open>if (x)\<close>.
\<close>

fun truthy :: "json option \<Rightarrow> bool" where
  "truthy None = False"
| "truthy (Some JNull) = False"
| "truthy (Some (JBool b)) = b"
| "truthy (Some (JNum n)) = (n \<noteq> 0)"
| "truthy (Some (JStr s)) = (s \<noteq> [])"
| "truthy (Some (JArr xs)) = True"
| "truthy (Some (JObj kvs)) = True"

text \<open>\<^verbatim>\<open>typeof x === 'object'\<close> holds of objects, of arrays and of \<^verbatim>\<open>null\<close>.\<close>

fun typeof_object :: "json option \<Rightarrow> bool" where
  "typeof_object (Some JNull) = True"
| "typeof_object (Some (JArr xs)) = True"
| "typeof_object (Some (JObj kvs)) = True"
| "typeof_object v = False"

fun typeof_string :: "json option \<Rightarrow> bool" where
  "typeof_string (Some (JStr s)) = True"
| "typeof_string v = False"

fun isArray :: "json option \<Rightarrow> bool" where
  "isArray (Some (JArr xs)) = True"
| "isArray v = False"

text \<open>
  \<open>property x k\<close> is the read \<^verbatim>\<open>x.k\<close> of a property. An object has the property or the
  read gives \<^verbatim>\<open>undefined\<close>; the names that this code reads (\<^verbatim>\<open>version\<close>, \<^verbatim>\<open>columns\<close>,
  \<^verbatim>\<open>id\<close>, ...) are no property of an array, a string, a number or a boolean, so the
  read gives \<^verbatim>\<open>undefined\<close> there. A read \<^verbatim>\<open>x.k\<close> of \<^verbatim>\<open>null\<close> or \<^verbatim>\<open>undefined\<close> would
  throw; the code reads so only from values that have passed the test \<^verbatim>\<open>!x\<close>, and
  reads with \<^verbatim>\<open>x?.k\<close> otherwise, which gives \<^verbatim>\<open>undefined\<close> as well.
\<close>

fun property :: "json option \<Rightarrow> string \<Rightarrow> json option" where
  "property (Some (JObj kvs)) k = map_of kvs k"
| "property v k = None"

fun string_value :: "json option \<Rightarrow> string" where
  "string_value (Some (JStr s)) = s"
| "string_value v = []"

fun array_elements :: "json option \<Rightarrow> json list" where
  "array_elements (Some (JArr xs)) = xs"
| "array_elements v = []"

text \<open>
  \<^verbatim>\<open>Number(x)\<close>. The number that a string denotes (\<^verbatim>\<open>StringToNumber\<close> of the
  platform) is the parameter \<open>strToNum\<close>.

  An object or an array is first converted to a primitive value, by the methods
  \<^verbatim>\<open>valueOf\<close> and \<^verbatim>\<open>toString\<close> that it has or inherits. An object parsed from JSON
  inherits a \<^verbatim>\<open>valueOf\<close> that returns the object itself, which is no primitive, and
  a \<^verbatim>\<open>toString\<close> that returns \<^verbatim>\<open>[object Object]\<close>, which denotes no number. If the
  object has a property \<^verbatim>\<open>toString\<close> of its own, that property hides the inherited
  method and, coming from JSON, is no function: there is nothing left to call, and
  the conversion throws a \<^verbatim>\<open>TypeError\<close>, with the message \<open>cannot_convert\<close> (the
  text is that of V8). An own property \<^verbatim>\<open>valueOf\<close> changes nothing.

  An array is converted through its text, which \<^verbatim>\<open>join\<close> makes of the texts of its
  elements: \<open>text_throws\<close> tells whether the text of an element throws, which it
  does at an object with an own \<^verbatim>\<open>toString\<close>, at any depth of arrays. Otherwise the
  empty array is \<open>0\<close>, an array of one element is what the text of that element
  denotes, and the text of a longer array has a comma and denotes no number.
\<close>

definition cannot_convert :: string where
  "cannot_convert = ''Cannot convert object to primitive value''"

fun text_throws :: "json \<Rightarrow> bool" where
  "text_throws (JObj kvs) = (map_of kvs ''toString'' \<noteq> None)"
| "text_throws (JArr xs) = list_ex text_throws xs"
| "text_throws v = False"

fun Number_of_array :: "(string \<Rightarrow> int option) \<Rightarrow> json list \<Rightarrow> error + int option" where
  "Number_of_array strToNum [] = Inr (Some 0)"
| "Number_of_array strToNum [JNull] = Inr (Some 0)"
| "Number_of_array strToNum [JBool b] = Inr None"
| "Number_of_array strToNum [JNum n] = Inr (Some n)"
| "Number_of_array strToNum [JStr s] = Inr (strToNum s)"
| "Number_of_array strToNum [JArr xs] = Number_of_array strToNum xs"
| "Number_of_array strToNum [JObj kvs] =
     (if map_of kvs ''toString'' \<noteq> None then Inl (Error cannot_convert) else Inr None)"
| "Number_of_array strToNum (x # y # zs) =
     (if list_ex text_throws (x # y # zs) then Inl (Error cannot_convert) else Inr None)"

fun Number :: "(string \<Rightarrow> int option) \<Rightarrow> json option \<Rightarrow> error + int option" where
  "Number strToNum None = Inr None"
| "Number strToNum (Some JNull) = Inr (Some 0)"
| "Number strToNum (Some (JBool b)) = Inr (Some (if b then 1 else 0))"
| "Number strToNum (Some (JNum n)) = Inr (Some n)"
| "Number strToNum (Some (JStr s)) = Inr (strToNum s)"
| "Number strToNum (Some (JArr xs)) = Number_of_array strToNum xs"
| "Number strToNum (Some (JObj kvs)) =
     (if map_of kvs ''toString'' \<noteq> None then Inl (Error cannot_convert) else Inr None)"

text \<open>\<^verbatim>\<open>n || d\<close> for a number \<open>n\<close>: \<^verbatim>\<open>NaN\<close> and \<open>0\<close> are falsy.\<close>

fun num_or :: "int option \<Rightarrow> int \<Rightarrow> int" where
  "num_or None d = d"
| "num_or (Some n) d = (if n = 0 then d else n)"

text \<open>\<^verbatim>\<open>x || d\<close> for a value \<open>x\<close>.\<close>

fun value_or :: "json option \<Rightarrow> json \<Rightarrow> json" where
  "value_or None d = d"
| "value_or (Some x) d = (if truthy (Some x) then x else d)"

text \<open>The decimal text of an index, for the messages that quote one.\<close>

function string_of_nat :: "nat \<Rightarrow> string" where
  "string_of_nat n =
     (if n < 10 then [''0123456789'' ! n]
      else string_of_nat (n div 10) @ [''0123456789'' ! (n mod 10)])"
  by pat_completeness auto
termination
  by (relation "measure id") auto

declare string_of_nat.simps [simp del]

text \<open>
  A JSON text is modelled by what \<^verbatim>\<open>JSON.parse\<close> makes of it: a \<^verbatim>\<open>SyntaxError\<close> with
  the platform's message, or the value that the text encodes. \<^verbatim>\<open>JSON.stringify\<close>
  gives a text that encodes its argument, whatever the indentation; it does not
  throw on a JSON value, so the \<^verbatim>\<open>try\<close> around it in the serialisers has no
  \<^verbatim>\<open>catch\<close> to run.
\<close>

datatype json_text = Malformed string | Encoding json

fun JSON_parse :: "json_text \<Rightarrow> error + json" where
  "JSON_parse (Malformed msg) = Inl (Error msg)"
| "JSON_parse (Encoding v) = Inr v"

definition JSON_stringify :: "json \<Rightarrow> json_text" where
  "JSON_stringify v = Encoding v"

subsection \<open>Normalisation (serialization.ts, first part)\<close>

text \<open>
  \<^verbatim>\<open>
  export function deserializeLayout(jsonString: string): GridLayout {
    try {
      const parsed = JSON.parse(jsonString);
      if (!parsed || typeof parsed !== 'object') {
        throw new Error('Invalid layout data: must be an object');
      }
      return {
        columns: Math.max(1, Math.min(12, Number(parsed.columns) || 4)),
        rows: Math.max(1, Math.min(12, Number(parsed.rows) || 4)),
        cellSize: {
          width: Math.max(100, Math.min(500, Number(parsed.cellSize?.width) || 200)),
          height: Math.max(100, Math.min(500, Number(parsed.cellSize?.height) || 150)),
        },
      };
    } catch (error) {
      throw new Error(`Failed to deserialize layout: ${error instanceof Error ? error.message : 'Unknown error'}`);
    }
  }
  \<close>
  The same four expressions normalise \<^verbatim>\<open>data.layout\<close> in
  \<^verbatim>\<open>validateAndNormalizeDashboard\<close>; \<open>normalizeLayout\<close> is that record expression.
  Its fields are evaluated in the order written, and a \<^verbatim>\<open>Number(...)\<close> that throws
  ends the evaluation.
\<close>

definition normalizeLayout ::
    "(string \<Rightarrow> int option) \<Rightarrow> json option \<Rightarrow> error + GridLayout" where
  "normalizeLayout strToNum parsed =
     (case Number strToNum (property parsed ''columns'') of
        Inl e \<Rightarrow> Inl e
      | Inr c \<Rightarrow>
     (case Number strToNum (property parsed ''rows'') of
        Inl e \<Rightarrow> Inl e
      | Inr r \<Rightarrow>
     (case Number strToNum (property (property parsed ''cellSize'') ''width'') of
        Inl e \<Rightarrow> Inl e
      | Inr w \<Rightarrow>
     (case Number strToNum (property (property parsed ''cellSize'') ''height'') of
        Inl e \<Rightarrow> Inl e
      | Inr h \<Rightarrow>
          Inr \<lparr>columns = max 1 (min 12 (num_or c 4)),
               rows = max 1 (min 12 (num_or r 4)),
               cellSize = \<lparr>width = max 100 (min 500 (num_or w 200)),
                           height = max 100 (min 500 (num_or h 150))\<rparr>\<rparr>))))"

definition rethrow :: "string \<Rightarrow> error + 'a \<Rightarrow> error + 'a" where
  "rethrow label r = (case r of Inl (Error msg) \<Rightarrow> Inl (Error (label @ msg)) | Inr v \<Rightarrow> Inr v)"

definition deserializeLayout :: "(string \<Rightarrow> int option) \<Rightarrow> json_text \<Rightarrow> error + GridLayout" where
  "deserializeLayout strToNum jsonString =
     rethrow ''Failed to deserialize layout: ''
       (case JSON_parse jsonString of
          Inl e \<Rightarrow> Inl e
        | Inr parsed \<Rightarrow>
            if \<not> truthy (Some parsed) \<or> \<not> typeof_object (Some parsed)
            then Inl (Error ''Invalid layout data: must be an object'')
            else normalizeLayout strToNum (Some parsed))"

text \<open>
  \<^verbatim>\<open>
  function validateAndNormalizeDashboard(data: any): DashboardData {
    if (!data || typeof data !== 'object') {
      throw new Error('Invalid dashboard data: must be an object');
    }
    if (!data.version || typeof data.version !== 'string') {
      throw new Error('Invalid dashboard data: missing or invalid version');
    }
    if (!data.layout || typeof data.layout !== 'object') {
      throw new Error('Invalid dashboard data: missing or invalid layout');
    }
    if (!Array.isArray(data.widgets)) {
      throw new Error('Invalid dashboard data: widgets must be an array');
    }
    if (!data.metadata || typeof data.metadata !== 'object') {
      throw new Error('Invalid dashboard data: missing or invalid metadata');
    }
    const layout: GridLayout = { ... as in deserializeLayout, of data.layout ... };
    const widgets: Widget[] = data.widgets.map((widget: any, index: number) => {
      if (!widget || typeof widget !== 'object') {
        throw new Error(`Invalid widget at index ${index}: must be an object`);
      }
      if (!widget.id || typeof widget.id !== 'string') {
        throw new Error(`Invalid widget at index ${index}: missing or invalid id`);
      }
      if (!widget.type || typeof widget.type !== 'string') {
        throw new Error(`Invalid widget at index ${index}: missing or invalid type`);
      }
      if (!widget.position || typeof widget.position !== 'object') {
        throw new Error(`Invalid widget at index ${index}: missing or invalid position`);
      }
      if (!widget.size || typeof widget.size !== 'object') {
        throw new Error(`Invalid widget at index ${index}: missing or invalid size`);
      }
      return {
        id: widget.id,
        type: widget.type as Widget['type'],
        position: {
          column: Math.max(0, Number(widget.position.column) || 0),
          row: Math.max(0, Number(widget.position.row) || 0),
        },
        size: {
          width: Math.max(1, Math.min(6, Number(widget.size.width) || 1)),
          height: Math.max(1, Math.min(6, Number(widget.size.height) || 1)),
        },
        content: widget.content || {},
        config: widget.config || {},
      };
    });
    const metadata: DashboardMetadata = {
      createdAt: data.metadata.createdAt || new Date().toISOString(),
      lastModified: data.metadata.lastModified || new Date().toISOString(),
      theme: data.metadata.theme || 'default',
      title: data.metadata.title || 'Untitled Dashboard',
      description: data.metadata.description || '',
    };
    return { version: data.version, layout, widgets, metadata };
  }
  \<close>
  The two readings of the clock are the parameters \<open>nowCreated\<close> and \<open>nowModified\<close>.
  The layout is normalised before the widgets, the widgets in their order, and in a
  widget the four numbers after the five checks, in the order written.
\<close>

definition normalizeWidget :: "(string \<Rightarrow> int option) \<Rightarrow> json \<Rightarrow> nat \<Rightarrow> error + Widget" where
  "normalizeWidget strToNum widget index =
     (let w = Some widget;
          at = ''Invalid widget at index '' @ string_of_nat index
      in if \<not> truthy w \<or> \<not> typeof_object w
         then Inl (Error (at @ '': must be an object''))
         else if \<not> truthy (property w ''id'') \<or> \<not> typeof_string (property w ''id'')
         then Inl (Error (at @ '': missing or invalid id''))
         else if \<not> truthy (property w ''type'') \<or> \<not> typeof_string (property w ''type'')
         then Inl (Error (at @ '': missing or invalid type''))
         else if \<not> truthy (property w ''position'') \<or> \<not> typeof_object (property w ''position'')
         then Inl (Error (at @ '': missing or invalid position''))
         else if \<not> truthy (property w ''size'') \<or> \<not> typeof_object (property w ''size'')
         then Inl (Error (at @ '': missing or invalid size''))
         else
           (case Number strToNum (property (property w ''position'') ''column'') of
              Inl e \<Rightarrow> Inl e
            | Inr c \<Rightarrow>
           (case Number strToNum (property (property w ''position'') ''row'') of
              Inl e \<Rightarrow> Inl e
            | Inr r \<Rightarrow>
           (case Number strToNum (property (property w ''size'') ''width'') of
              Inl e \<Rightarrow> Inl e
            | Inr wd \<Rightarrow>
           (case Number strToNum (property (property w ''size'') ''height'') of
              Inl e \<Rightarrow> Inl e
            | Inr ht \<Rightarrow>
                Inr \<lparr>id_w = string_value (property w ''id''),
                     type = string_value (property w ''type''),
                     position = \<lparr>column = max 0 (num_or c 0), row = max 0 (num_or r 0)\<rparr>,
                     size_w = \<lparr>width = max 1 (min 6 (num_or wd 1)),
                               height = max 1 (min 6 (num_or ht 1))\<rparr>,
                     content = value_or (property w ''content'') (JObj []),
                     config = value_or (property w ''config'') (JObj [])\<rparr>)))))"

text \<open>\<^verbatim>\<open>data.widgets.map\<close>: in order, with the index; the first throw ends it.\<close>

fun normalizeWidgets :: "(string \<Rightarrow> int option) \<Rightarrow> json list \<Rightarrow> nat \<Rightarrow> error + Widget list" where
  "normalizeWidgets strToNum [] index = Inr []"
| "normalizeWidgets strToNum (widget # rest) index =
     (case normalizeWidget strToNum widget index of
        Inl e \<Rightarrow> Inl e
      | Inr w \<Rightarrow>
          (case normalizeWidgets strToNum rest (Suc index) of
             Inl e \<Rightarrow> Inl e
           | Inr ws \<Rightarrow> Inr (w # ws)))"

definition normalizeMetadata :: "string \<Rightarrow> string \<Rightarrow> json option \<Rightarrow> DashboardMetadata" where
  "normalizeMetadata nowCreated nowModified md =
     \<lparr>createdAt = value_or (property md ''createdAt'') (JStr nowCreated),
      lastModified = value_or (property md ''lastModified'') (JStr nowModified),
      theme = value_or (property md ''theme'') (JStr ''default''),
      title = value_or (property md ''title'') (JStr ''Untitled Dashboard''),
      description = value_or (property md ''description'') (JStr []),
      extension = []\<rparr>"

definition validateAndNormalizeDashboard ::
    "(string \<Rightarrow> int option) \<Rightarrow> string \<Rightarrow> string \<Rightarrow> json \<Rightarrow> error + DashboardData" where
  "validateAndNormalizeDashboard strToNum nowCreated nowModified data =
     (let d = Some data
      in if \<not> truthy d \<or> \<not> typeof_object d
         then Inl (Error ''Invalid dashboard data: must be an object'')
         else if \<not> truthy (property d ''version'') \<or> \<not> typeof_string (property d ''version'')
         then Inl (Error ''Invalid dashboard data: missing or invalid version'')
         else if \<not> truthy (property d ''layout'') \<or> \<not> typeof_object (property d ''layout'')
         then Inl (Error ''Invalid dashboard data: missing or invalid layout'')
         else if \<not> isArray (property d ''widgets'')
         then Inl (Error ''Invalid dashboard data: widgets must be an array'')
         else if \<not> truthy (property d ''metadata'') \<or> \<not> typeof_object (property d ''metadata'')
         then Inl (Error ''Invalid dashboard data: missing or invalid metadata'')
         else
           case normalizeLayout strToNum (property d ''layout'') of
             Inl e \<Rightarrow> Inl e
           | Inr l \<Rightarrow>
               (case normalizeWidgets strToNum (array_elements (property d ''widgets'')) 0 of
                  Inl e \<Rightarrow> Inl e
                | Inr ws \<Rightarrow>
                    Inr \<lparr>version = string_value (property d ''version''),
                         layout = l,
                         widgets = ws,
                         metadata = normalizeMetadata nowCreated nowModified
                                      (property d ''metadata'')\<rparr>))"

text \<open>
  \<^verbatim>\<open>
  export function deserializeDashboard(jsonString: string): DashboardData {
    try {
      const parsed = JSON.parse(jsonString);
      return validateAndNormalizeDashboard(parsed);
    } catch (error) {
      throw new Error(`Failed to deserialize dashboard: ${error instanceof Error ? error.message : 'Unknown error'}`);
    }
  }
  \<close>
\<close>

definition deserializeDashboard ::
    "(string \<Rightarrow> int option) \<Rightarrow> string \<Rightarrow> string \<Rightarrow> json_text \<Rightarrow> error + DashboardData" where
  "deserializeDashboard strToNum nowCreated nowModified jsonString =
     rethrow ''Failed to deserialize dashboard: ''
       (case JSON_parse jsonString of
          Inl e \<Rightarrow> Inl e
        | Inr parsed \<Rightarrow> validateAndNormalizeDashboard strToNum nowCreated nowModified parsed)"

text \<open>
  \<^verbatim>\<open>
  export function serializeDashboard(dashboard: DashboardData): string {
    try {
      return JSON.stringify(dashboard, null, 2);
    } catch (error) {
      throw new Error(`Failed to serialize dashboard: ...`);
    }
  }
  \<close>
  \<open>json_of_dashboard\<close> is the typed document as the JSON value that
  \<^verbatim>\<open>JSON.stringify\<close> walks: an object per record, a property per field.
\<close>

definition json_of_layout :: "GridLayout \<Rightarrow> json" where
  "json_of_layout l =
     JObj [(''columns'', JNum (columns l)), (''rows'', JNum (rows l)),
           (''cellSize'', JObj [(''width'', JNum (width (cellSize l))),
                                (''height'', JNum (height (cellSize l)))])]"

definition json_of_widget :: "Widget \<Rightarrow> json" where
  "json_of_widget w =
     JObj [(''id'', JStr (id_w w)), (''type'', JStr (type w)),
           (''position'', JObj [(''column'', JNum (column (position w))),
                                (''row'', JNum (row (position w)))]),
           (''size'', JObj [(''width'', JNum (width (size_w w))),
                            (''height'', JNum (height (size_w w)))]),
           (''content'', content w), (''config'', config w)]"

definition json_of_metadata :: "DashboardMetadata \<Rightarrow> json" where
  "json_of_metadata m =
     JObj ([(''createdAt'', createdAt m), (''lastModified'', lastModified m),
            (''theme'', theme m), (''title'', title m), (''description'', description m)]
           @ extension m)"

definition json_of_dashboard :: "DashboardData \<Rightarrow> json" where
  "json_of_dashboard d =
     JObj [(''version'', JStr (version d)), (''layout'', json_of_layout (layout d)),
           (''widgets'', JArr (map json_of_widget (widgets d))),
           (''metadata'', json_of_metadata (metadata d))]"

definition serializeDashboard :: "DashboardData \<Rightarrow> json_text" where
  "serializeDashboard dashboard = JSON_stringify (json_of_dashboard dashboard)"

text \<open>
  \<^verbatim>\<open>
  export function validateDashboardJSON(jsonString: string): { isValid: boolean; errors: string[] } {
    const errors: string[] = [];
    try {
      const parsed = JSON.parse(jsonString);
      validateAndNormalizeDashboard(parsed);
    } catch (error) {
      errors.push(error instanceof Error ? error.message : 'Unknown validation error');
    }
    return { isValid: errors.length === 0, errors };
  }
  \<close>
\<close>

record ValidationResult =
  isValid :: bool
  errors :: "string list"

definition validateDashboardJSON ::
    "(string \<Rightarrow> int option) \<Rightarrow> string \<Rightarrow> string \<Rightarrow> json_text \<Rightarrow> ValidationResult" where
  "validateDashboardJSON strToNum nowCreated nowModified jsonString =
     (let errs =
            (case JSON_parse jsonString of
               Inl (Error msg) \<Rightarrow> [msg]
             | Inr parsed \<Rightarrow>
                 (case validateAndNormalizeDashboard strToNum nowCreated nowModified parsed of
                    Inl (Error msg) \<Rightarrow> [msg]
                  | Inr normalized \<Rightarrow> []))
      in \<lparr>isValid = (length errs = 0), errors = errs\<rparr>)"

text \<open>
  \<^verbatim>\<open>
  export function validateDashboardData(data: any): boolean {
    if (!data || typeof data !== 'object') { throw new Error('Dashboard data must be an object'); }
    if (!data.version || typeof data.version !== 'string') {
      throw new Error('Dashboard data must have a version string');
    }
    if (!data.layout || typeof data.layout !== 'object') {
      throw new Error('Dashboard data must have a layout object');
    }
    if (typeof data.layout.columns !== 'number' || data.layout.columns < 1) {
      throw new Error('Layout must have a positive number of columns');
    }
    if (typeof data.layout.rows !== 'number' || data.layout.rows < 1) {
      throw new Error('Layout must have a positive number of rows');
    }
    if (!Array.isArray(data.widgets)) { throw new Error('Dashboard data must have a widgets array'); }
    for (const widget of data.widgets) {
      if (!widget.id || typeof widget.id !== 'string') {
        throw new Error('Each widget must have a string ID');
      }
      if (!isValidWidgetPlacement(widget, data.layout)) {
        throw new Error(`Widget ${widget.id} is placed outside grid bounds`);
      }
    }
    for (let i = 0; i < data.widgets.length; i++) {
      for (let j = i + 1; j < data.widgets.length; j++) {
        if (doWidgetsOverlap(data.widgets[i], data.widgets[j])) {
          throw new Error(`Widgets ${data.widgets[i].id} and ${data.widgets[j].id} overlap`);
        }
      }
    }
    return true;
  }
  \<close>
  The strict validator of utils.ts, on a typed document: the tests of \<^verbatim>\<open>typeof\<close> hold
  by the type, the others are as written.
\<close>

fun validateWidgets :: "Widget list \<Rightarrow> GridLayout \<Rightarrow> error + unit" where
  "validateWidgets [] l = Inr ()"
| "validateWidgets (widget # rest) l =
     (if id_w widget = [] then Inl (Error ''Each widget must have a string ID'')
      else if \<not> isValidWidgetPlacement widget l
      then Inl (Error (''Widget '' @ id_w widget @ '' is placed outside grid bounds''))
      else validateWidgets rest l)"

fun overlapWithLater :: "Widget \<Rightarrow> Widget list \<Rightarrow> error + unit" where
  "overlapWithLater wi [] = Inr ()"
| "overlapWithLater wi (wj # rest) =
     (if doWidgetsOverlap wi wj
      then Inl (Error (''Widgets '' @ id_w wi @ '' and '' @ id_w wj @ '' overlap''))
      else overlapWithLater wi rest)"

fun validateOverlaps :: "Widget list \<Rightarrow> error + unit" where
  "validateOverlaps [] = Inr ()"
| "validateOverlaps (wi # rest) =
     (case overlapWithLater wi rest of
        Inl e \<Rightarrow> Inl e
      | Inr u \<Rightarrow> validateOverlaps rest)"

definition validateDashboardData :: "DashboardData \<Rightarrow> error + bool" where
  "validateDashboardData data =
     (if version data = [] then Inl (Error ''Dashboard data must have a version string'')
      else if columns (layout data) < 1
      then Inl (Error ''Layout must have a positive number of columns'')
      else if rows (layout data) < 1
      then Inl (Error ''Layout must have a positive number of rows'')
      else case validateWidgets (widgets data) (layout data) of
        Inl e \<Rightarrow> Inl e
      | Inr u \<Rightarrow>
          (case validateOverlaps (widgets data) of
             Inl e \<Rightarrow> Inl e
           | Inr u' \<Rightarrow> Inr True))"

section \<open>Notions used in the statements\<close>

subsection \<open>What one call of the migration callback does to a widget's records\<close>

text \<open>
  The position and the size that \<open>adjustWidget\<close> leaves at the two addresses of a
  widget, as functions of the records found there: its six assignments, in their
  order, on values.
\<close>

definition moved_position :: "GridLayout \<Rightarrow> GridPosition \<Rightarrow> GridSize \<Rightarrow> GridPosition" where
  "moved_position lay pos sz =
     (let p1 = (if column pos \<ge> columns lay
                then pos\<lparr>column := max 0 (columns lay - width sz)\<rparr> else pos)
      in if row p1 \<ge> rows lay then p1\<lparr>row := max 0 (rows lay - height sz)\<rparr> else p1)"

definition fitted_size :: "GridLayout \<Rightarrow> GridPosition \<Rightarrow> GridSize \<Rightarrow> GridSize" where
  "fitted_size lay pos sz =
     (let s1 = (if column pos + width sz > columns lay
                then sz\<lparr>width := max 1 (columns lay - column pos)\<rparr> else sz);
          s2 = (if row pos + height s1 > rows lay
                then s1\<lparr>height := max 1 (rows lay - row pos)\<rparr> else s1);
          s3 = s2\<lparr>width := max 1 (min 6 (width s2))\<rparr>
      in s3\<lparr>height := max 1 (min 6 (height s3))\<rparr>)"

text \<open>
  \<open>wellformed\<close>: the records of a widget before a migration, coordinates from 0 and
  sizes from 1. \<open>fits\<close>: the records of a widget that lies within a layout, with a
  size of 1 to 6 cells each way.
\<close>

definition wellformed :: "GridPosition \<Rightarrow> GridSize \<Rightarrow> bool" where
  "wellformed pos sz = (0 \<le> column pos \<and> 0 \<le> row pos \<and> 1 \<le> width sz \<and> 1 \<le> height sz)"

definition fits :: "GridLayout \<Rightarrow> GridPosition \<Rightarrow> GridSize \<Rightarrow> bool" where
  "fits lay pos sz =
     (0 \<le> column pos \<and> 0 \<le> row pos \<and>
      column pos + width sz \<le> columns lay \<and> row pos + height sz \<le> rows lay \<and>
      1 \<le> width sz \<and> width sz \<le> 6 \<and> 1 \<le> height sz \<and> height sz \<le> 6)"

subsection \<open>The three classes of getAffectedWidgets\<close>

datatype impact = Unaffected | Affected | Removed

definition impact_of :: "store \<Rightarrow> GridLayout \<Rightarrow> WidgetRef \<Rightarrow> impact" where
  "impact_of h newLayout widget =
     (if column (positions h (position widget)) \<ge> columns newLayout \<or>
         row (positions h (position widget)) \<ge> rows newLayout
      then Removed
      else if column (positions h (position widget)) + width (sizes h (size_w widget))
                > columns newLayout \<or>
              row (positions h (position widget)) + height (sizes h (size_w widget))
                > rows newLayout
      then Affected
      else Unaffected)"

subsection \<open>The shape that validateAndNormalizeDashboard asks of a document\<close>

definition shaped_widget :: "json \<Rightarrow> bool" where
  "shaped_widget widget =
     (let w = Some widget
      in truthy w \<and> typeof_object w \<and>
         truthy (property w ''id'') \<and> typeof_string (property w ''id'') \<and>
         truthy (property w ''type'') \<and> typeof_string (property w ''type'') \<and>
         truthy (property w ''position'') \<and> typeof_object (property w ''position'') \<and>
         truthy (property w ''size'') \<and> typeof_object (property w ''size''))"

definition shaped_dashboard :: "json \<Rightarrow> bool" where
  "shaped_dashboard data =
     (let d = Some data
      in truthy d \<and> typeof_object d \<and>
         truthy (property d ''version'') \<and> typeof_string (property d ''version'') \<and>
         truthy (property d ''layout'') \<and> typeof_object (property d ''layout'') \<and>
         isArray (property d ''widgets'') \<and>
         truthy (property d ''metadata'') \<and> typeof_object (property d ''metadata'') \<and>
         list_all shaped_widget (array_elements (property d ''widgets'')))"

subsection \<open>The values that Number converts\<close>

text \<open>
  \<^verbatim>\<open>Number(x)\<close> returns for every value read from JSON but an object with a property
  \<^verbatim>\<open>toString\<close> of its own and an array that holds such an object, at any depth of
  arrays. A document is convertible when the four numbers of its layout and the four
  numbers of each of its widgets are.
\<close>

fun convertible :: "json option \<Rightarrow> bool" where
  "convertible (Some (JObj kvs)) = (map_of kvs ''toString'' = None)"
| "convertible (Some (JArr xs)) = (\<not> list_ex text_throws xs)"
| "convertible v = True"

definition convertible_layout :: "json option \<Rightarrow> bool" where
  "convertible_layout l =
     (convertible (property l ''columns'') \<and> convertible (property l ''rows'') \<and>
      convertible (property (property l ''cellSize'') ''width'') \<and>
      convertible (property (property l ''cellSize'') ''height''))"

definition convertible_widget :: "json \<Rightarrow> bool" where
  "convertible_widget widget =
     (let w = Some widget
      in convertible (property (property w ''position'') ''column'') \<and>
         convertible (property (property w ''position'') ''row'') \<and>
         convertible (property (property w ''size'') ''width'') \<and>
         convertible (property (property w ''size'') ''height''))"

definition convertible_dashboard :: "json \<Rightarrow> bool" where
  "convertible_dashboard data =
     (let d = Some data
      in convertible_layout (property d ''layout'') \<and>
         list_all convertible_widget (array_elements (property d ''widgets'')))"

subsection \<open>The invariants of the specification\<close>

text \<open>
  Section 3 of the specification: (4) every numeric field within its range, (1) every
  footprint within the layout, (2) no two footprints intersecting, (3) the widget
  ids unique.
\<close>

definition layout_in_range :: "GridLayout \<Rightarrow> bool" where
  "layout_in_range l =
     (1 \<le> columns l \<and> columns l \<le> 12 \<and> 1 \<le> rows l \<and> rows l \<le> 12 \<and>
      100 \<le> width (cellSize l) \<and> width (cellSize l) \<le> 500 \<and>
      100 \<le> height (cellSize l) \<and> height (cellSize l) \<le> 500)"

definition widget_in_range :: "Widget \<Rightarrow> bool" where
  "widget_in_range w =
     (0 \<le> column (position w) \<and> 0 \<le> row (position w) \<and>
      1 \<le> width (size_w w) \<and> width (size_w w) \<le> 6 \<and>
      1 \<le> height (size_w w) \<and> height (size_w w) \<le> 6)"

definition spec_invariants :: "DashboardData \<Rightarrow> bool" where
  "spec_invariants d =
     (layout_in_range (layout d) \<and>
      list_all widget_in_range (widgets d) \<and>
      list_all (\<lambda>w. isValidWidgetPlacement w (layout d)) (widgets d) \<and>
      list_all (\<lambda>a. list_all (\<lambda>b. \<not> doWidgetsOverlap a b) (widgets d)) (widgets d) \<and>
      distinct (map id_w (widgets d)))"

text \<open>
  What normalisation keeps as it is: a widget with a non-empty id and type and with
  truthy \<^verbatim>\<open>content\<close> and \<^verbatim>\<open>config\<close> (any object is), and metadata of the five
  fields only, each truthy but for the description, which may be the empty string.
\<close>

definition plain_widget :: "Widget \<Rightarrow> bool" where
  "plain_widget w =
     (id_w w \<noteq> [] \<and> type w \<noteq> [] \<and> truthy (Some (content w)) \<and> truthy (Some (config w)))"

definition plain_metadata :: "DashboardMetadata \<Rightarrow> bool" where
  "plain_metadata m =
     (truthy (Some (createdAt m)) \<and> truthy (Some (lastModified m)) \<and>
      truthy (Some (theme m)) \<and> truthy (Some (title m)) \<and>
      (truthy (Some (description m)) \<or> description m = JStr []) \<and>
      extension m = [])"

subsection \<open>Documents of the examples\<close>

text \<open>
  The example of the specification's section 8: a widget at column 3, row 3, of one
  cell, on a grid of 4 by 4 that becomes a grid of 2 by 2.
\<close>

definition grid :: "int \<Rightarrow> int \<Rightarrow> GridLayout" where
  "grid c r = \<lparr>columns = c, rows = r, cellSize = \<lparr>width = 200, height = 150\<rparr>\<rparr>"

definition example_store :: store where
  "example_store =
     \<lparr>positions = (\<lambda>a. \<lparr>column = 3, row = 3\<rparr>),
      sizes = (\<lambda>a. \<lparr>width = 1, height = 1\<rparr>)\<rparr>"

definition example_widget :: WidgetRef where
  "example_widget =
     \<lparr>id_w = ''widget-1'', type = ''text'', position = 0, size_w = 0,
      content = JObj [], config = JObj []\<rparr>"

definition example_metadata :: DashboardMetadata where
  "example_metadata =
     \<lparr>createdAt = JStr ''2024-01-01T00:00:00.000Z'',
      lastModified = JStr ''2024-01-01T00:00:00.000Z'',
      theme = JStr ''default'', title = JStr ''New Dashboard'',
      description = JStr ''A customizable dashboard'', extension = []\<rparr>"

definition example_dashboard :: DashboardRef where
  "example_dashboard =
     \<lparr>version = ''1.0'', layout = grid 4 4, widgets = [example_widget],
      metadata = example_metadata\<rparr>"

text \<open>
  The widgets of the test file utils.test.ts: \<^verbatim>\<open>testWidget\<close> at column 0, row 0, of
  2 by 1 cells, and its copies at another column under another id.
\<close>

definition test_widget :: "string \<Rightarrow> int \<Rightarrow> Widget" where
  "test_widget i c =
     \<lparr>id_w = i, type = ''text'', position = \<lparr>column = c, row = 0\<rparr>,
      size_w = \<lparr>width = 2, height = 1\<rparr>,
      content = JObj [(''text'', JStr ''Test'')], config = JObj []\<rparr>"

text \<open>
  A document of the right shape whose first two widgets overlap and whose third
  lies outside the grid of 4 by 4.
\<close>

definition clash_widget :: "string \<Rightarrow> int \<Rightarrow> int \<Rightarrow> json" where
  "clash_widget i c r =
     JObj [(''id'', JStr i), (''type'', JStr ''text''),
           (''position'', JObj [(''column'', JNum c), (''row'', JNum r)]),
           (''size'', JObj [(''width'', JNum 2), (''height'', JNum 2)]),
           (''content'', JObj []), (''config'', JObj [])]"

definition clash_document :: json where
  "clash_document =
     JObj [(''version'', JStr ''1.0''),
           (''layout'', json_of_layout (grid 4 4)),
           (''widgets'', JArr [clash_widget ''a'' 0 0, clash_widget ''b'' 1 1,
                               clash_widget ''c'' 9 9]),
           (''metadata'', json_of_metadata example_metadata)]"

text \<open>
  A document of the right shape whose layout has, for its columns, an object with a
  property \<^verbatim>\<open>toString\<close>.
\<close>

definition opaque_document :: json where
  "opaque_document =
     JObj [(''version'', JStr ''1.0''),
           (''layout'', JObj [(''columns'', JObj [(''toString'', JNum 1)])]),
           (''widgets'', JArr []), (''metadata'', json_of_metadata example_metadata)]"



text \<open>A typed document within all invariants; \<open>tagged_dashboard\<close> has one more field in its metadata.\<close>

definition sample_dashboard :: DashboardData where
  "sample_dashboard =
     \<lparr>version = ''1.0'', layout = grid 4 4,
      widgets = [test_widget ''widget-1'' 0, test_widget ''widget-2'' 2],
      metadata = example_metadata\<rparr>"

definition tagged_dashboard :: DashboardData where
  "tagged_dashboard =
     sample_dashboard\<lparr>metadata := example_metadata\<lparr>extension := [(''author'', JStr ''rift'')]\<rparr>\<rparr>"

text \<open>A layout fragment with 99 columns and a given number of rows.\<close>

definition wide_layout :: "int \<Rightarrow> json" where
  "wide_layout r =
     JObj [(''columns'', JNum 99), (''rows'', JNum r),
           (''cellSize'', JObj [(''width'', JNum 200), (''height'', JNum 150)])]"

text \<open>A document of the right shape, with no widget, around such a layout.\<close>

definition wide_document :: "int \<Rightarrow> json" where
  "wide_document r =
     JObj [(''version'', JStr ''1.0''), (''layout'', wide_layout r),
           (''widgets'', JArr []), (''metadata'', json_of_metadata example_metadata)]"

section \<open>Properties\<close>

subsection \<open>Coordinate codec\<close>

lemma ulp_small: "a < 2 ^ 53 \<Longrightarrow> ulp a = 1"
  by (subst ulp.simps) simp

lemma ulp_positive: "1 \<le> ulp a"
proof (induction a rule: ulp.induct)
  case (1 a)
  show ?case
  proof (cases "a < 2 ^ 53")
    case True
    then show ?thesis by (simp add: ulp_small)
  next
    case False
    with 1 have "1 \<le> ulp (a div 2)" by simp
    with False show ?thesis by (subst ulp.simps) simp
  qed
qed

lemma ulp_below: "1 \<le> a \<Longrightarrow> ulp a \<le> a"
proof (induction a rule: ulp.induct)
  case (1 a)
  show ?case
  proof (cases "a < 2 ^ 53")
    case True
    with "1.prems" show ?thesis by (simp add: ulp_small)
  next
    case False
    then have "1 \<le> a div 2" by simp
    with 1 False have "ulp (a div 2) \<le> a div 2" by simp
    then have "2 * ulp (a div 2) \<le> a" by simp
    with False show ?thesis by (subst ulp.simps) simp
  qed
qed

lemma round_magnitude_small: "0 \<le> a \<Longrightarrow> a < 2 ^ 53 \<Longrightarrow> round_magnitude a = a"
  by (simp add: round_magnitude_def ulp_small)

lemma round_magnitude_positive:
  assumes "1 \<le> a"
  shows "1 \<le> round_magnitude a"
proof -
  let ?u = "ulp a"
  have u: "1 \<le> ?u" "?u \<le> a" using assms by (simp_all add: ulp_positive ulp_below)
  then have "0 < a div ?u" by (simp add: pos_imp_zdiv_pos_iff)
  then have "1 \<le> a div ?u" by simp
  with u have "1 * 1 \<le> (a div ?u) * ?u" by (intro mult_mono) simp_all
  moreover have "(a div ?u) * ?u \<le> (a div ?u + 1) * ?u" using u by (simp add: algebra_simps)
  ultimately show ?thesis by (simp add: round_magnitude_def Let_def)
qed

lemma fl_exact: "\<bar>x\<bar> \<le> 2 ^ 53 \<Longrightarrow> fl x = Num x"
proof (cases "\<bar>x\<bar> = 2 ^ 53")
  case True
  have "ulp (2 ^ 53) = 2" by (simp add: ulp.simps)
  then have "round_magnitude (2 ^ 53) = 2 ^ 53" by (simp add: round_magnitude_def)
  with True show ?thesis by (auto simp: fl_def)
next
  case False
  assume "\<bar>x\<bar> \<le> 2 ^ 53"
  with False have "\<bar>x\<bar> < 2 ^ 53" by simp
  then show ?thesis by (auto simp: fl_def Let_def round_magnitude_small)
qed

lemma fl_less_one: "0 \<le> x \<Longrightarrow> less_num (fl x) 1 \<longleftrightarrow> x < 1"
  using round_magnitude_positive[of x]
  by (cases "x < 1") (auto simp: fl_def Let_def round_magnitude_small)

lemma indexToLetter_loop_decoded:
  "-1 \<le> i \<Longrightarrow> i < 2 ^ 53 \<Longrightarrow>
   \<exists>l. indexToLetter_loop i acc = Some l \<and>
       letterToIndex_loop l (Num 0) = letterToIndex_loop acc (Num (i + 1))"
proof (induction i acc rule: indexToLetter_loop.induct)
  case (1 index result)
  show ?case
  proof (cases "index \<ge> 0")
    case True
    let ?c = "65 + nat (index mod 26)"
    from "1.prems" have small: "\<not> 2 ^ 53 < index" by simp
    have "index div 26 \<le> index" using True by presburger
    with "1.prems" True have
      "\<exists>l. indexToLetter_loop (index div 26 - 1) (?c # result) = Some l \<and>
           letterToIndex_loop l (Num 0)
             = letterToIndex_loop (?c # result) (Num (index div 26 - 1 + 1))"
      using small by (intro "1.IH") auto
    then obtain l where l: "indexToLetter_loop (index div 26 - 1) (?c # result) = Some l"
      and decoded: "letterToIndex_loop l (Num 0)
             = letterToIndex_loop (?c # result) (Num (index div 26))"
      by auto
    have unfolded: "indexToLetter_loop index result = Some l"
      using True small l by (subst indexToLetter_loop.simps) simp
    have "letterToIndex_loop (?c # result) (Num (index div 26))
        = letterToIndex_loop result (Num (index + 1))"
    proof -
      have "index mod 26 < 26" "0 \<le> index mod 26" by simp_all
      then have letter: "\<not> 25 < nat (index mod 26)" by linarith
      have digit: "int (nat (index mod 26)) = index mod 26" by simp
      have whole: "index div 26 * 26 + index mod 26 = index"
        by (simp only: div_mult_mod_eq)
      have "0 \<le> index div 26 * 26" using True by (simp add: pos_imp_zdiv_nonneg_iff)
      moreover have "index div 26 * 26 \<le> index" using whole \<open>0 \<le> index mod 26\<close> by linarith
      ultimately have product: "fl (index div 26 * 26) = Num (index div 26 * 26)"
        using "1.prems" by (intro fl_exact) simp
      have "index div 26 * 26 + (int ?c - 64) = index + 1"
        using digit whole by simp
      moreover have "fl (index + 1) = Num (index + 1)"
        using "1.prems" True by (intro fl_exact) simp
      ultimately have
        "plus_num (times_num (Num (index div 26)) 26) (int ?c - 64) = Num (index + 1)"
        using product by simp
      then show ?thesis using letter by simp
    qed
    with unfolded decoded show ?thesis by simp
  next
    case False
    with "1.prems" have "index = -1" by simp
    then show ?thesis by (simp add: indexToLetter_loop.simps)
  qed
qed

lemma indexToLetter_loop_upper:
  "indexToLetter_loop i acc = Some l \<Longrightarrow> list_all isUpperAZ acc \<Longrightarrow> list_all isUpperAZ l"
proof (induction i acc rule: indexToLetter_loop.induct)
  case (1 index result)
  from "1.prems"(1) have small: "\<not> 2 ^ 53 < index"
    by (subst (asm) indexToLetter_loop.simps) (simp split: if_splits)
  show ?case
  proof (cases "index \<ge> 0")
    case True
    have "index mod 26 < 26" "0 \<le> index mod 26" by simp_all
    then have "isUpperAZ (65 + nat (index mod 26))" by (simp add: isUpperAZ_def nat_le_iff)
    moreover from "1.prems"(1) True small
    have "indexToLetter_loop (index div 26 - 1) ((65 + nat (index mod 26)) # result) = Some l"
      by (subst (asm) indexToLetter_loop.simps) simp
    ultimately show ?thesis using "1.IH" "1.prems"(2) True small by simp
  next
    case False
    with "1.prems" small show ?thesis
      by (subst (asm) indexToLetter_loop.simps) simp
  qed
qed

lemma indexToLetter_loop_length:
  "indexToLetter_loop i acc = Some l \<Longrightarrow> length acc \<le> length l"
proof (induction i acc rule: indexToLetter_loop.induct)
  case (1 index result)
  from "1.prems"(1) have small: "\<not> 2 ^ 53 < index"
    by (subst (asm) indexToLetter_loop.simps) (simp split: if_splits)
  show ?case
  proof (cases "index \<ge> 0")
    case True
    from "1.prems"(1) True small
    have "indexToLetter_loop (index div 26 - 1) ((65 + nat (index mod 26)) # result) = Some l"
      by (subst (asm) indexToLetter_loop.simps) simp
    with "1.IH" True small
    have "length ((65 + nat (index mod 26)) # result) \<le> length l" by simp
    then show ?thesis by simp
  next
    case False
    with "1.prems" small show ?thesis
      by (subst (asm) indexToLetter_loop.simps) simp
  qed
qed

lemma indexToLetter_loop_nonempty:
  assumes "0 \<le> i" "indexToLetter_loop i acc = Some l"
  shows "l \<noteq> []"
proof -
  from assms(2) have small: "\<not> 2 ^ 53 < i"
    by (subst (asm) indexToLetter_loop.simps) (simp split: if_splits)
  with assms
  have "indexToLetter_loop (i div 26 - 1) ((65 + nat (i mod 26)) # acc) = Some l"
    by (subst (asm) indexToLetter_loop.simps) simp
  from indexToLetter_loop_length[OF this] show ?thesis by auto
qed

lemma toUpperCase_upper: "list_all isUpperAZ s \<Longrightarrow> toUpperCase s = s"
  by (induction s) (auto simp: toUpperCase_def upperUnit_def isUpperAZ_def isLowerAZ_def)

lemma letterToIndex_loop_fails:
  "isl (letterToIndex_loop s r) \<longleftrightarrow> (\<exists>c\<in>set s. \<not> isUpperAZ c)"
  by (induction s arbitrary: r) (auto simp: isUpperAZ_def)

lemma letterToIndex_fails:
  "isl (letterToIndex s) \<longleftrightarrow> s = [] \<or> (\<exists>c\<in>set (toUpperCase s). \<not> isUpperAZ c)"
  using letterToIndex_loop_fails[of "toUpperCase s" "Num 0"]
  by (auto simp: letterToIndex_def split: sum.splits)

lemma toUpperCase_ascii:
  assumes "\<forall>c\<in>set s. c < 128"
  shows "(\<exists>c\<in>set (toUpperCase s). \<not> isUpperAZ c) \<longleftrightarrow>
         (\<exists>c\<in>set s. \<not> isUpperAZ c \<and> \<not> isLowerAZ c)"
proof -
  have unit: "(\<exists>u\<in>set (upperUnit c). \<not> isUpperAZ u) \<longleftrightarrow> (\<not> isUpperAZ c \<and> \<not> isLowerAZ c)"
    if "c < 128" for c
    using that by (auto simp: upperUnit_def isUpperAZ_def isLowerAZ_def)
  have "(\<exists>c\<in>set (toUpperCase s). \<not> isUpperAZ c)
        \<longleftrightarrow> (\<exists>c\<in>set s. \<exists>u\<in>set (upperUnit c). \<not> isUpperAZ u)"
    by (auto simp: toUpperCase_def)
  also have "\<dots> \<longleftrightarrow> (\<exists>c\<in>set s. \<not> isUpperAZ c \<and> \<not> isLowerAZ c)"
    using assms unit by blast
  finally show ?thesis .
qed

text \<open>
  Claim C6, as the code has it. For every index \<open>n\<close> from 0 to \<open>2 ^ 53 - 1\<close>, the
  integers that a double holds together with their successors, \<open>indexToLetter\<close>
  returns a label that \<open>letterToIndex\<close> decodes to \<open>n\<close>, and the labels of 0, 25, 26,
  701 and 702 are A, Z, AA, ZZ and AAA. \<open>letterToIndex\<close> throws exactly when the
  string is empty or its upper-case form has a code unit outside A to Z; for a
  string of ASCII that is exactly when the string is empty or has a character that
  is no letter.
\<close>

theorem letterToIndex_indexToLetter:
  "(0 \<le> n \<and> n < 2 ^ 53 \<longrightarrow>
      (\<exists>l. indexToLetter n = Inr (Some l) \<and> letterToIndex l = Inr (Num n))) \<and>
   indexToLetter 0 = Inr (Some (units_of ''A'')) \<and>
   indexToLetter 25 = Inr (Some (units_of ''Z'')) \<and>
   indexToLetter 26 = Inr (Some (units_of ''AA'')) \<and>
   indexToLetter 701 = Inr (Some (units_of ''ZZ'')) \<and>
   indexToLetter 702 = Inr (Some (units_of ''AAA'')) \<and>
   (isl (letterToIndex s) \<longleftrightarrow> s = [] \<or> (\<exists>c\<in>set (toUpperCase s). \<not> isUpperAZ c)) \<and>
   ((\<forall>c\<in>set s. c < 128) \<longrightarrow>
      (isl (letterToIndex s) \<longleftrightarrow> s = [] \<or> (\<exists>c\<in>set s. \<not> isUpperAZ c \<and> \<not> isLowerAZ c)))"
proof -
  have roundtrip: "\<exists>l. indexToLetter n = Inr (Some l) \<and> letterToIndex l = Inr (Num n)"
    if n: "0 \<le> n" "n < 2 ^ 53"
  proof -
    from n indexToLetter_loop_decoded[of n "[]"]
    obtain l where l: "indexToLetter_loop n [] = Some l"
      and decoded: "letterToIndex_loop l (Num 0) = Inr (Num (n + 1))"
      by auto
    from indexToLetter_loop_upper[OF l] have upper: "toUpperCase l = l"
      by (simp add: toUpperCase_upper)
    from indexToLetter_loop_nonempty[OF n(1) l] have nonempty: "l \<noteq> []" .
    have "fl n = Num n" using n by (intro fl_exact) simp
    with upper nonempty decoded have "letterToIndex l = Inr (Num n)"
      by (simp add: letterToIndex_def)
    with l n show ?thesis by (simp add: indexToLetter_def)
  qed
  then have first: "0 \<le> n \<and> n < 2 ^ 53 \<longrightarrow>
      (\<exists>l. indexToLetter n = Inr (Some l) \<and> letterToIndex l = Inr (Num n))"
    by blast
  have spots: "indexToLetter 0 = Inr (Some (units_of ''A''))"
      "indexToLetter 25 = Inr (Some (units_of ''Z''))"
      "indexToLetter 26 = Inr (Some (units_of ''AA''))"
      "indexToLetter 701 = Inr (Some (units_of ''ZZ''))"
      "indexToLetter 702 = Inr (Some (units_of ''AAA''))"
    by (simp_all add: indexToLetter_def indexToLetter_loop.simps units_of_def)
  have ascii: "(\<forall>c\<in>set s. c < 128) \<longrightarrow>
      (isl (letterToIndex s) \<longleftrightarrow> s = [] \<or> (\<exists>c\<in>set s. \<not> isUpperAZ c \<and> \<not> isLowerAZ c))"
    using toUpperCase_ascii[of s] letterToIndex_fails[of s] by blast
  from first spots letterToIndex_fails[of s] ascii show ?thesis by blast
qed

text \<open>The theorem at index 702 and at the string \<^verbatim>\<open>a1\<close>, which has a digit.\<close>

theorem letterToIndex_indexToLetter_witness:
  "(\<exists>l. indexToLetter 702 = Inr (Some l) \<and> letterToIndex l = Inr (Num 702)) \<and>
   isl (letterToIndex (units_of ''a1''))"
proof -
  note at = letterToIndex_indexToLetter[of 702 "units_of ''a1''"]
  have decoded: "\<exists>l. indexToLetter 702 = Inr (Some l) \<and> letterToIndex l = Inr (Num 702)"
    by (rule at[THEN conjunct1, THEN mp]) simp
  have "\<exists>c\<in>set (toUpperCase (units_of ''a1'')). \<not> isUpperAZ c"
    by (simp add: units_of_def toUpperCase_def upperUnit_def isLowerAZ_def isUpperAZ_def)
  with at have "isl (letterToIndex (units_of ''a1''))" by blast
  with decoded show ?thesis by (rule conjI)
qed

text \<open>
  Claim C6, as it is stated, fails in two ways. At the string of the one character
  U+00DF, which is not empty and whose character is outside A to Z and a to z,
  \<open>letterToIndex\<close> returns 512, the index of \<^verbatim>\<open>SS\<close>. At the index \<open>2 ^ 53\<close>, which
  is a double, \<open>letterToIndex\<close> decodes the label of \<open>indexToLetter\<close> to
  \<open>2 ^ 53 - 1\<close>: the last sum of the loop is \<open>2 ^ 53 + 1\<close>, which is no double and is
  rounded to \<open>2 ^ 53\<close>.
\<close>

theorem letterToIndex_sharp_s:
  "letterToIndex [223] = Inr (Num 512) \<and> \<not> isUpperAZ 223 \<and> \<not> isLowerAZ 223 \<and>
   indexToLetter 512 = Inr (Some (units_of ''SS'')) \<and>
   indexToLetter (2 ^ 53) = Inr (Some (units_of ''BKTXHSOGHKKG'')) \<and>
   letterToIndex (units_of ''BKTXHSOGHKKG'') = Inr (Num (2 ^ 53 - 1)) \<and>
   letterToIndex (units_of ''BKTXHSOGHKKG'') \<noteq> Inr (Num (2 ^ 53))"
proof -
  have small: "fl 19 = Num 19" "fl 26 = Num 26" "fl 511 = Num 511" "fl 512 = Num 512"
    "fl 494 = Num 494" "fl 513 = Num 513"
    by (simp_all add: fl_exact)
  have sharp: "letterToIndex [223] = Inr (Num 512)"
    by (simp add: letterToIndex_def toUpperCase_def upperUnit_def isLowerAZ_def small fl_exact)
  have label: "indexToLetter 512 = Inr (Some (units_of ''SS''))"
    by (simp add: indexToLetter_def indexToLetter_loop.simps units_of_def)
  have large: "indexToLetter (2 ^ 53) = Inr (Some (units_of ''BKTXHSOGHKKG''))"
    by (simp add: indexToLetter_def indexToLetter_loop.simps units_of_def)
  have "ulp 9007199254740993 = 2" by (simp add: ulp.simps)
  then have rounded: "fl 9007199254740993 = Num 9007199254740992"
    by (simp add: fl_def round_magnitude_def)
  have decoded: "letterToIndex (units_of ''BKTXHSOGHKKG'') = Inr (Num (2 ^ 53 - 1))"
    by (simp add: letterToIndex_def toUpperCase_def upperUnit_def isLowerAZ_def units_of_def
        fl_exact rounded)
  from sharp label large decoded show ?thesis
    by (simp add: isUpperAZ_def isLowerAZ_def)
qed

lemma match_coordinate_Some:
  "match_coordinate s = Some (l, d) \<longleftrightarrow>
     s = l @ d \<and> l \<noteq> [] \<and> d \<noteq> [] \<and> list_all isUpperAZ l \<and> list_all isDigit d"
proof
  assume "match_coordinate s = Some (l, d)"
  then have l: "l = takeWhile isUpperAZ s" and d: "d = dropWhile isUpperAZ s"
    and ne: "l \<noteq> []" "d \<noteq> []" and dig: "list_all isDigit d"
    by (auto simp: match_coordinate_def Let_def split: if_splits)
  have "list_all isUpperAZ l" unfolding l list_all_iff by (auto dest: set_takeWhileD)
  with l d ne dig
  show "s = l @ d \<and> l \<noteq> [] \<and> d \<noteq> [] \<and> list_all isUpperAZ l \<and> list_all isDigit d"
    by simp
next
  assume a: "s = l @ d \<and> l \<noteq> [] \<and> d \<noteq> [] \<and> list_all isUpperAZ l \<and> list_all isDigit d"
  then obtain x xs where d: "d = x # xs" by (cases d) auto
  with a have "isDigit x" by simp
  then have nx: "\<not> isUpperAZ x" by (simp add: isDigit_def isUpperAZ_def)
  from a have all: "\<forall>c\<in>set l. isUpperAZ c" by (simp add: list_all_iff)
  have "takeWhile isUpperAZ s = l" "dropWhile isUpperAZ s = d"
    using a d nx all by simp_all
  with a show "match_coordinate s = Some (l, d)"
    by (simp add: match_coordinate_def Let_def)
qed

lemma digits_grow:
  "0 \<le> a \<Longrightarrow> list_all isDigit ds \<Longrightarrow> a \<le> foldl (\<lambda>acc d. acc * 10 + (int d - 48)) a ds"
proof (induction ds arbitrary: a)
  case Nil
  then show ?case by simp
next
  case (Cons d ds)
  from Cons.prems have d: "48 \<le> d" by (simp add: isDigit_def)
  then have "a \<le> a * 10 + (int d - 48)" using Cons.prems by simp
  moreover have "a * 10 + (int d - 48)
      \<le> foldl (\<lambda>acc d. acc * 10 + (int d - 48)) (a * 10 + (int d - 48)) ds"
    using Cons.prems d by (intro Cons.IH) simp_all
  ultimately show ?case by simp
qed

lemma decimal_nonnegative: "list_all isDigit ds \<Longrightarrow> 0 \<le> decimal ds"
  using digits_grow[of 0 ds] by (simp add: decimal_def)

lemma parseInt10_less_one:
  "list_all isDigit ds \<Longrightarrow> less_num (parseInt10 ds) 1 \<longleftrightarrow> decimal ds < 1"
  by (simp add: parseInt10_def fl_less_one decimal_nonnegative)

lemma parseInt10_exact:
  "list_all isDigit ds \<Longrightarrow> decimal ds \<le> 2 ^ 53 \<Longrightarrow> parseInt10 ds = Num (decimal ds)"
  using decimal_nonnegative[of ds] by (simp add: parseInt10_def fl_exact)

lemma spec_coordinate_format_iff:
  "spec_coordinate_format s \<longleftrightarrow>
    (\<exists>l d ds. s = l @ d # ds \<and> l \<noteq> [] \<and> list_all isUpperAZ l \<and>
               49 \<le> d \<and> d \<le> 57 \<and> list_all isDigit ds)"
proof
  assume "spec_coordinate_format s"
  then obtain d ds where l: "takeWhile isUpperAZ s \<noteq> []"
     and r: "dropWhile isUpperAZ s = d # ds"
     and d: "49 \<le> d" "d \<le> 57" "list_all isDigit ds"
    by (auto simp: spec_coordinate_format_def Let_def split: list.splits)
  have "list_all isUpperAZ (takeWhile isUpperAZ s)"
    unfolding list_all_iff by (auto dest: set_takeWhileD)
  moreover have "s = takeWhile isUpperAZ s @ d # ds"
    using r by (metis takeWhile_dropWhile_id)
  ultimately show "\<exists>l d ds. s = l @ d # ds \<and> l \<noteq> [] \<and> list_all isUpperAZ l \<and>
               49 \<le> d \<and> d \<le> 57 \<and> list_all isDigit ds"
    using l d by blast
next
  assume "\<exists>l d ds. s = l @ d # ds \<and> l \<noteq> [] \<and> list_all isUpperAZ l \<and>
               49 \<le> d \<and> d \<le> 57 \<and> list_all isDigit ds"
  then obtain l d ds where a: "s = l @ d # ds" "l \<noteq> []" "list_all isUpperAZ l"
      "49 \<le> d" "d \<le> 57" "list_all isDigit ds"
    by blast
  then have nx: "\<not> isUpperAZ d" by (simp add: isUpperAZ_def)
  from a have all: "\<forall>c\<in>set l. isUpperAZ c" by (simp add: list_all_iff)
  have "takeWhile isUpperAZ s = l" "dropWhile isUpperAZ s = d # ds"
    using a nx all by simp_all
  with a show "spec_coordinate_format s" by (simp add: spec_coordinate_format_def Let_def)
qed

lemma spec_coordinate_format_parsed:
  assumes "spec_coordinate_format s"
  shows "\<not> isl (parseCoordinate s)"
proof -
  from assms obtain l d ds where a: "s = l @ d # ds" "l \<noteq> []" "list_all isUpperAZ l"
      "49 \<le> d" "d \<le> 57" "list_all isDigit ds"
    unfolding spec_coordinate_format_iff by blast
  then have digits: "list_all isDigit (d # ds)" by (simp add: isDigit_def)
  with a have m: "match_coordinate s = Some (l, d # ds)"
    unfolding match_coordinate_Some by simp
  have "1 \<le> int d - 48" using a by simp
  also have "\<dots> \<le> foldl (\<lambda>acc d. acc * 10 + (int d - 48)) (int d - 48) ds"
    using a by (intro digits_grow) simp_all
  finally have "1 \<le> decimal (d # ds)" by (simp add: decimal_def)
  then have "\<not> less_num (parseInt10 (d # ds)) 1"
    using parseInt10_less_one[OF digits] by simp
  with m a show ?thesis by (simp add: parseCoordinate_def Let_def)
qed

lemma parseCoordinate_Inr:
  "parseCoordinate s = Inr c \<longleftrightarrow>
     (\<exists>d. s = GridCoordinate.column c @ d \<and> GridCoordinate.column c \<noteq> [] \<and> d \<noteq> [] \<and>
          list_all isUpperAZ (GridCoordinate.column c) \<and> list_all isDigit d \<and>
          1 \<le> decimal d \<and> GridCoordinate.row c = parseInt10 d)"
proof
  assume p: "parseCoordinate s = Inr c"
  then obtain l d where m: "match_coordinate s = Some (l, d)"
    by (cases "match_coordinate s") (auto simp: parseCoordinate_def split: if_splits)
  with p have c: "c = \<lparr>GridCoordinate.column = l, GridCoordinate.row = parseInt10 d\<rparr>"
      "\<not> less_num (parseInt10 d) 1"
    by (auto simp: parseCoordinate_def Let_def split: if_splits)
  from m have digits: "list_all isDigit d" unfolding match_coordinate_Some by simp
  from c(2) parseInt10_less_one[OF digits] have "1 \<le> decimal d" by simp
  with m[unfolded match_coordinate_Some] c
  show "\<exists>d. s = GridCoordinate.column c @ d \<and> GridCoordinate.column c \<noteq> [] \<and> d \<noteq> [] \<and>
          list_all isUpperAZ (GridCoordinate.column c) \<and> list_all isDigit d \<and>
          1 \<le> decimal d \<and> GridCoordinate.row c = parseInt10 d"
    by auto
next
  assume "\<exists>d. s = GridCoordinate.column c @ d \<and> GridCoordinate.column c \<noteq> [] \<and> d \<noteq> [] \<and>
          list_all isUpperAZ (GridCoordinate.column c) \<and> list_all isDigit d \<and>
          1 \<le> decimal d \<and> GridCoordinate.row c = parseInt10 d"
  then obtain d where a: "s = GridCoordinate.column c @ d" "GridCoordinate.column c \<noteq> []"
      "d \<noteq> []" "list_all isUpperAZ (GridCoordinate.column c)" "list_all isDigit d"
      "1 \<le> decimal d" "GridCoordinate.row c = parseInt10 d"
    by blast
  then have m: "match_coordinate s = Some (GridCoordinate.column c, d)"
    unfolding match_coordinate_Some by simp
  from a parseInt10_less_one[of d] have "\<not> less_num (parseInt10 d) 1" by simp
  with m a show "parseCoordinate s = Inr c" by (simp add: parseCoordinate_def Let_def)
qed

lemma parseCoordinate_fails:
  "isl (parseCoordinate s) \<longleftrightarrow>
     \<not> (\<exists>l d. s = l @ d \<and> l \<noteq> [] \<and> d \<noteq> [] \<and> list_all isUpperAZ l \<and>
              list_all isDigit d \<and> 1 \<le> decimal d)"
proof -
  have "\<not> isl (parseCoordinate s) \<longleftrightarrow> (\<exists>c. parseCoordinate s = Inr c)"
    by (cases "parseCoordinate s") auto
  also have "\<dots> \<longleftrightarrow> (\<exists>l d. s = l @ d \<and> l \<noteq> [] \<and> d \<noteq> [] \<and> list_all isUpperAZ l \<and>
                           list_all isDigit d \<and> 1 \<le> decimal d)"
  proof
    assume "\<exists>c. parseCoordinate s = Inr c"
    then show "\<exists>l d. s = l @ d \<and> l \<noteq> [] \<and> d \<noteq> [] \<and> list_all isUpperAZ l \<and>
                      list_all isDigit d \<and> 1 \<le> decimal d"
      unfolding parseCoordinate_Inr by metis
  next
    assume "\<exists>l d. s = l @ d \<and> l \<noteq> [] \<and> d \<noteq> [] \<and> list_all isUpperAZ l \<and>
                   list_all isDigit d \<and> 1 \<le> decimal d"
    then obtain l d where a: "s = l @ d" "l \<noteq> []" "d \<noteq> []" "list_all isUpperAZ l"
        "list_all isDigit d" "1 \<le> decimal d"
      by blast
    then have "parseCoordinate s
        = Inr \<lparr>GridCoordinate.column = l, GridCoordinate.row = parseInt10 d\<rparr>"
      unfolding parseCoordinate_Inr by simp
    then show "\<exists>c. parseCoordinate s = Inr c" by blast
  qed
  finally show ?thesis by blast
qed

lemma parseCoordinate_row:
  assumes "parseCoordinate s = Inr c"
  shows "\<not> less_num (GridCoordinate.row c) 1"
proof -
  from assms obtain d where "list_all isDigit d" "1 \<le> decimal d"
      "GridCoordinate.row c = parseInt10 d"
    unfolding parseCoordinate_Inr by blast
  then show ?thesis using parseInt10_less_one[of d] by simp
qed

text \<open>
  Claim C5, as the code has it. \<open>parseCoordinate\<close> throws exactly for the strings that
  are not one or more letters A to Z followed by one or more digits whose decimal
  value is at least 1, so leading zeros are accepted. It returns \<open>c\<close> exactly when
  the string is the letters of \<open>c\<close> followed by such digits and the row of \<open>c\<close> is
  what \<^verbatim>\<open>parseInt\<close> makes of them: a number that is not below 1, and the decimal
  value of the digits when that is at most \<open>2 ^ 53\<close>. Every string of the format
  \<^verbatim>\<open>^[A-Z]+[1-9][0-9]*$\<close> is parsed.
\<close>

theorem parseCoordinate_format:
  "(isl (parseCoordinate s) \<longleftrightarrow>
      \<not> (\<exists>l d. s = l @ d \<and> l \<noteq> [] \<and> d \<noteq> [] \<and> list_all isUpperAZ l \<and>
               list_all isDigit d \<and> 1 \<le> decimal d)) \<and>
   (parseCoordinate s = Inr c \<longleftrightarrow>
      (\<exists>d. s = GridCoordinate.column c @ d \<and> GridCoordinate.column c \<noteq> [] \<and> d \<noteq> [] \<and>
           list_all isUpperAZ (GridCoordinate.column c) \<and> list_all isDigit d \<and>
           1 \<le> decimal d \<and> GridCoordinate.row c = parseInt10 d)) \<and>
   (parseCoordinate s = Inr c \<longrightarrow> \<not> less_num (GridCoordinate.row c) 1) \<and>
   (list_all isDigit ds \<and> decimal ds \<le> 2 ^ 53 \<longrightarrow> parseInt10 ds = Num (decimal ds)) \<and>
   (spec_coordinate_format s \<longrightarrow> \<not> isl (parseCoordinate s))"
  using parseCoordinate_fails[of s] parseCoordinate_Inr[of s c] parseCoordinate_row[of s c]
    parseInt10_exact[of ds] spec_coordinate_format_parsed[of s]
  by blast

text \<open>
  The theorem at \<^verbatim>\<open>AB12\<close>, which is parsed, and at \<^verbatim>\<open>A0\<close>, which is refused. At
  \<^verbatim>\<open>A9007199254740993\<close> the row is the double next to the value of the digits.
\<close>

theorem parseCoordinate_format_witness:
  "parseCoordinate (units_of ''AB12'')
     = Inr \<lparr>GridCoordinate.column = units_of ''AB'', GridCoordinate.row = Num 12\<rparr> \<and>
   spec_coordinate_format (units_of ''AB12'') \<and>
   isl (parseCoordinate (units_of ''A0'')) \<and>
   parseCoordinate (units_of ''A9007199254740993'')
     = Inr \<lparr>GridCoordinate.column = units_of ''A'',
            GridCoordinate.row = Num 9007199254740992\<rparr>"
proof -
  note ab = parseCoordinate_format[of "units_of ''AB12''"
      "\<lparr>GridCoordinate.column = units_of ''AB'', GridCoordinate.row = Num 12\<rparr>"
      "units_of ''12''"]
  have twelve: "decimal (units_of ''12'') = 12"
    by (simp add: decimal_def units_of_def)
  have "list_all isDigit (units_of ''12'') \<and> decimal (units_of ''12'') \<le> 2 ^ 53"
    by (simp add: twelve) (simp add: units_of_def isDigit_def)
  with ab twelve have row: "parseInt10 (units_of ''12'') = Num 12" by simp
  have "\<exists>d. units_of ''AB12'' = units_of ''AB'' @ d \<and> units_of ''AB'' \<noteq> [] \<and> d \<noteq> [] \<and>
          list_all isUpperAZ (units_of ''AB'') \<and> list_all isDigit d \<and>
          1 \<le> decimal d \<and> Num 12 = parseInt10 d"
    by (rule exI[of _ "units_of ''12''"])
       (simp add: row twelve, simp add: units_of_def isUpperAZ_def isDigit_def)
  with ab have parsed: "parseCoordinate (units_of ''AB12'')
     = Inr \<lparr>GridCoordinate.column = units_of ''AB'', GridCoordinate.row = Num 12\<rparr>"
    by simp
  have format: "spec_coordinate_format (units_of ''AB12'')"
    by (simp add: spec_coordinate_format_def units_of_def isUpperAZ_def isDigit_def)
  have zero: "fl 0 = Num 0" by (simp add: fl_exact)
  have refused: "isl (parseCoordinate (units_of ''A0''))"
    by (simp add: parseCoordinate_def match_coordinate_def
        units_of_def isUpperAZ_def isDigit_def parseInt10_def decimal_def zero)
  have "ulp 9007199254740993 = 2" by (simp add: ulp.simps)
  then have rounded: "fl 9007199254740993 = Num 9007199254740992"
    by (simp add: fl_def round_magnitude_def)
  have large: "parseCoordinate (units_of ''A9007199254740993'')
     = Inr \<lparr>GridCoordinate.column = units_of ''A'',
            GridCoordinate.row = Num 9007199254740992\<rparr>"
    by (simp add: parseCoordinate_def match_coordinate_def
        units_of_def isUpperAZ_def isDigit_def parseInt10_def decimal_def rounded)
  from parsed format refused large show ?thesis by simp
qed

text \<open>
  Claim C5, as it is stated, fails at \<^verbatim>\<open>A01\<close>: the string is not of the format
  \<^verbatim>\<open>^[A-Z]+[1-9][0-9]*$\<close>, and \<open>parseCoordinate\<close> returns column A, row 1.
\<close>

theorem parseCoordinate_leading_zero:
  "\<not> spec_coordinate_format (units_of ''A01'') \<and>
   parseCoordinate (units_of ''A01'')
     = Inr \<lparr>GridCoordinate.column = units_of ''A'', GridCoordinate.row = Num 1\<rparr>"
proof -
  have one: "fl 1 = Num 1" by (simp add: fl_exact)
  show ?thesis
    by (simp add: spec_coordinate_format_def parseCoordinate_def match_coordinate_def
        units_of_def isUpperAZ_def isDigit_def parseInt10_def decimal_def Let_def one)
qed

subsection \<open>Geometry\<close>






subsection \<open>Layout migration\<close>

lemma set_column_fields:
  "positions (set_column p v h) = (positions h)(p := (positions h p)\<lparr>column := v\<rparr>)"
  "sizes (set_column p v h) = sizes h"
  by (simp_all add: set_column_def)

lemma set_row_fields:
  "positions (set_row p v h) = (positions h)(p := (positions h p)\<lparr>row := v\<rparr>)"
  "sizes (set_row p v h) = sizes h"
  by (simp_all add: set_row_def)

lemma set_width_fields:
  "sizes (set_width a v h) = (sizes h)(a := (sizes h a)\<lparr>width := v\<rparr>)"
  "positions (set_width a v h) = positions h"
  by (simp_all add: set_width_def)

lemma set_height_fields:
  "sizes (set_height a v h) = (sizes h)(a := (sizes h a)\<lparr>height := v\<rparr>)"
  "positions (set_height a v h) = positions h"
  by (simp_all add: set_height_def)

lemma adjustWidget_fields:
  "fst (adjustWidget lay w h) = w"
  "positions (snd (adjustWidget lay w h)) =
     (positions h)(position w := moved_position lay (positions h (position w)) (sizes h (size_w w)))"
  "sizes (snd (adjustWidget lay w h)) =
     (sizes h)(size_w w := fitted_size lay
                 (moved_position lay (positions h (position w)) (sizes h (size_w w)))
                 (sizes h (size_w w)))"
proof -
  let ?p = "position w" and ?s = "size_w w"
  let ?pos = "positions h ?p" and ?sz = "sizes h ?s"
  define h1 where "h1 = (if column (positions h ?p) \<ge> columns lay
                then set_column ?p (max 0 (columns lay - width (sizes h ?s))) h else h)"
  define h2 where "h2 = (if row (positions h1 ?p) \<ge> rows lay
                then set_row ?p (max 0 (rows lay - height (sizes h1 ?s))) h1 else h1)"
  define h3 where "h3 = (if column (positions h2 ?p) + width (sizes h2 ?s) > columns lay
                then set_width ?s (max 1 (columns lay - column (positions h2 ?p))) h2 else h2)"
  define h4 where "h4 = (if row (positions h3 ?p) + height (sizes h3 ?s) > rows lay
                then set_height ?s (max 1 (rows lay - row (positions h3 ?p))) h3 else h3)"
  define h5 where "h5 = set_width ?s (max 1 (min 6 (width (sizes h4 ?s)))) h4"
  define h6 where "h6 = set_height ?s (max 1 (min 6 (height (sizes h5 ?s)))) h5"
  have result: "adjustWidget lay w h = (w, h6)"
    unfolding adjustWidget_def Let_def h6_def h5_def h4_def h3_def h2_def h1_def by (rule refl)
  define P1 where "P1 = (if column ?pos \<ge> columns lay
                then ?pos\<lparr>column := max 0 (columns lay - width ?sz)\<rparr> else ?pos)"
  define P2 where "P2 = (if row P1 \<ge> rows lay then P1\<lparr>row := max 0 (rows lay - height ?sz)\<rparr> else P1)"
  define S1 where "S1 = (if column P2 + width ?sz > columns lay
                then ?sz\<lparr>width := max 1 (columns lay - column P2)\<rparr> else ?sz)"
  define S2 where "S2 = (if row P2 + height S1 > rows lay
                then S1\<lparr>height := max 1 (rows lay - row P2)\<rparr> else S1)"
  define S3 where "S3 = S2\<lparr>width := max 1 (min 6 (width S2))\<rparr>"
  define S4 where "S4 = S3\<lparr>height := max 1 (min 6 (height S3))\<rparr>"
  have moved: "moved_position lay ?pos ?sz = P2"
    by (simp add: moved_position_def P2_def P1_def Let_def)
  have fitted: "fitted_size lay P2 ?sz = S4"
    by (simp only: fitted_size_def S4_def S3_def S2_def S1_def Let_def)
  have 1: "positions h1 = (positions h)(?p := P1)" "sizes h1 = sizes h"
    by (simp_all add: h1_def P1_def set_column_fields)
  have 2: "positions h2 = (positions h)(?p := P2)" "sizes h2 = sizes h"
    by (simp_all add: h2_def P2_def set_row_fields 1)
  have 3: "positions h3 = (positions h)(?p := P2)" "sizes h3 = (sizes h)(?s := S1)"
    by (simp_all add: h3_def S1_def set_width_fields 2)
  have 4: "positions h4 = (positions h)(?p := P2)" "sizes h4 = (sizes h)(?s := S2)"
    by (simp_all add: h4_def S2_def set_height_fields 3)
  have 5: "positions h5 = (positions h)(?p := P2)" "sizes h5 = (sizes h)(?s := S3)"
    by (simp_all add: h5_def S3_def set_width_fields 4)
  have 6: "positions h6 = (positions h)(?p := P2)" "sizes h6 = (sizes h)(?s := S4)"
    by (simp_all add: h6_def S4_def set_height_fields 5)
  show "fst (adjustWidget lay w h) = w" by (simp add: result)
  show "positions (snd (adjustWidget lay w h)) = (positions h)(?p := moved_position lay ?pos ?sz)"
    by (simp add: result 6 moved)
  show "sizes (snd (adjustWidget lay w h)) =
     (sizes h)(?s := fitted_size lay (moved_position lay ?pos ?sz) ?sz)"
    by (simp add: result 6 moved fitted)
qed

lemma moved_position_nonneg:
  "0 \<le> column pos \<Longrightarrow> 0 \<le> row pos \<Longrightarrow>
   0 \<le> column (moved_position lay pos sz) \<and> 0 \<le> row (moved_position lay pos sz)"
  by (auto simp: moved_position_def Let_def)

lemma moved_position_inside:
  "1 \<le> columns lay \<Longrightarrow> 1 \<le> rows lay \<Longrightarrow> 1 \<le> width sz \<Longrightarrow> 1 \<le> height sz \<Longrightarrow>
   column (moved_position lay pos sz) < columns lay \<and>
   row (moved_position lay pos sz) < rows lay"
  by (auto simp: moved_position_def Let_def)

lemma moved_position_same:
  "column pos < columns lay \<Longrightarrow> row pos < rows lay \<Longrightarrow> moved_position lay pos sz = pos"
  by (auto simp: moved_position_def Let_def)

lemma fitted_size_bounds:
  "1 \<le> width (fitted_size lay pos sz) \<and> width (fitted_size lay pos sz) \<le> 6 \<and>
   1 \<le> height (fitted_size lay pos sz) \<and> height (fitted_size lay pos sz) \<le> 6"
  by (auto simp: fitted_size_def Let_def)

lemma fitted_size_shrinks:
  "1 \<le> width sz \<Longrightarrow> 1 \<le> height sz \<Longrightarrow>
   width (fitted_size lay pos sz) \<le> width sz \<and> height (fitted_size lay pos sz) \<le> height sz"
  by (auto simp: fitted_size_def Let_def)

lemma fitted_size_inside:
  "column pos < columns lay \<Longrightarrow> row pos < rows lay \<Longrightarrow> 1 \<le> width sz \<Longrightarrow> 1 \<le> height sz \<Longrightarrow>
   column pos + width (fitted_size lay pos sz) \<le> columns lay \<and>
   row pos + height (fitted_size lay pos sz) \<le> rows lay"
  by (auto simp: fitted_size_def Let_def)

text \<open>
  One call of the callback, on the records at any two addresses \<open>p\<close> and \<open>s\<close>, which
  the widget of the call may share: well-formed records stay well-formed, and
  records that fit the layout still fit it.
\<close>

lemma adjustWidget_wellformed:
  assumes "wellformed (positions h p) (sizes h s)"
  shows "wellformed (positions (snd (adjustWidget lay w h)) p)
                    (sizes (snd (adjustWidget lay w h)) s)"
  using assms moved_position_nonneg[of "positions h p" lay "sizes h (size_w w)"]
    fitted_size_bounds[of lay
      "moved_position lay (positions h (position w)) (sizes h (size_w w))" "sizes h (size_w w)"]
  by (auto simp: adjustWidget_fields wellformed_def)

lemma adjustWidget_fits_own:
  assumes "1 \<le> columns lay" "1 \<le> rows lay"
    and "wellformed (positions h (position w)) (sizes h (size_w w))"
  shows "fits lay (positions (snd (adjustWidget lay w h)) (position w))
                  (sizes (snd (adjustWidget lay w h)) (size_w w))"
proof -
  let ?pos = "positions h (position w)" and ?sz = "sizes h (size_w w)"
  let ?P = "moved_position lay ?pos ?sz"
  from assms have wf: "0 \<le> column ?pos" "0 \<le> row ?pos" "1 \<le> width ?sz" "1 \<le> height ?sz"
    by (simp_all add: wellformed_def)
  note nonneg = moved_position_nonneg[OF wf(1,2), of lay ?sz]
  note inside = moved_position_inside[OF assms(1,2) wf(3,4), of ?pos]
  note fitted = fitted_size_inside[of ?P lay ?sz, OF _ _ wf(3,4)]
  note bounds = fitted_size_bounds[of lay ?P ?sz]
  show ?thesis using nonneg inside fitted bounds by (simp add: adjustWidget_fields fits_def)
qed

lemma adjustWidget_fits_kept:
  assumes "fits lay (positions h p) (sizes h s)"
  shows "fits lay (positions (snd (adjustWidget lay w h)) p)
                  (sizes (snd (adjustWidget lay w h)) s)"
proof -
  let ?pos = "positions h (position w)" and ?sz = "sizes h (size_w w)"
  let ?P = "moved_position lay ?pos ?sz"
  let ?h' = "snd (adjustWidget lay w h)"
  from assms have f: "0 \<le> column (positions h p)" "0 \<le> row (positions h p)"
    "column (positions h p) + width (sizes h s) \<le> columns lay"
    "row (positions h p) + height (sizes h s) \<le> rows lay"
    "1 \<le> width (sizes h s)" "width (sizes h s) \<le> 6"
    "1 \<le> height (sizes h s)" "height (sizes h s) \<le> 6"
    by (simp_all add: fits_def)
  have pos: "positions ?h' p = positions h p"
  proof (cases "p = position w")
    case True
    with f have "column ?pos < columns lay" "row ?pos < rows lay" by simp_all
    then have "?P = ?pos" by (rule moved_position_same)
    with True show ?thesis by (simp add: adjustWidget_fields)
  next
    case False
    then show ?thesis by (simp add: adjustWidget_fields)
  qed
  have sz: "1 \<le> width (sizes ?h' s) \<and> width (sizes ?h' s) \<le> width (sizes h s) \<and>
            1 \<le> height (sizes ?h' s) \<and> height (sizes ?h' s) \<le> height (sizes h s)"
  proof (cases "s = size_w w")
    case True
    with f have "1 \<le> width ?sz" "1 \<le> height ?sz" by simp_all
    from fitted_size_shrinks[OF this, of lay ?P] fitted_size_bounds[of lay ?P ?sz] True
    show ?thesis by (simp add: adjustWidget_fields)
  next
    case False
    with f show ?thesis by (simp add: adjustWidget_fields)
  qed
  from f pos sz show ?thesis by (simp add: fits_def)
qed

lemma adjustWidgetsToLayout_fst: "fst (adjustWidgetsToLayout ws lay h) = ws"
  by (induction ws arbitrary: h) (simp_all add: split_beta adjustWidget_fields(1))

lemma adjustWidgetsToLayout_snd_Cons:
  "snd (adjustWidgetsToLayout (w # ws) lay h)
     = snd (adjustWidgetsToLayout ws lay (snd (adjustWidget lay w h)))"
  by (simp add: split_beta)

lemma adjustWidgetsToLayout_fits_kept:
  "fits lay (positions h p) (sizes h s) \<Longrightarrow>
   fits lay (positions (snd (adjustWidgetsToLayout ws lay h)) p)
            (sizes (snd (adjustWidgetsToLayout ws lay h)) s)"
proof (induction ws arbitrary: h)
  case Nil
  then show ?case by simp
next
  case (Cons w ws)
  show ?case unfolding adjustWidgetsToLayout_snd_Cons
    by (rule Cons.IH) (rule adjustWidget_fits_kept[OF Cons.prems])
qed

text \<open>
  The loop: when every widget of the list is well-formed in the store at the start,
  every widget of the list fits the layout in the store at the end. The widget of
  the first call fits after it and keeps fitting through the later calls; the later
  widgets are still well-formed after the first call.
\<close>

lemma adjustWidgetsToLayout_fits:
  assumes "1 \<le> columns lay" "1 \<le> rows lay"
  shows "(\<forall>w\<in>set ws. wellformed (positions h (position w)) (sizes h (size_w w))) \<Longrightarrow>
     (\<forall>w\<in>set ws. fits lay (positions (snd (adjustWidgetsToLayout ws lay h)) (position w))
                          (sizes (snd (adjustWidgetsToLayout ws lay h)) (size_w w)))"
proof (induction ws arbitrary: h)
  case Nil
  then show ?case by simp
next
  case (Cons x xs)
  let ?h1 = "snd (adjustWidget lay x h)"
  have x: "fits lay (positions ?h1 (position x)) (sizes ?h1 (size_w x))"
    using Cons.prems by (intro adjustWidget_fits_own assms) simp
  have xs: "\<forall>w\<in>set xs. wellformed (positions ?h1 (position w)) (sizes ?h1 (size_w w))"
    using Cons.prems by (auto intro: adjustWidget_wellformed)
  show ?case unfolding adjustWidgetsToLayout_snd_Cons
    using adjustWidgetsToLayout_fits_kept[OF x, of xs] Cons.IH[OF xs] by simp
qed

lemma fits_isValidWidgetPlacement:
  "fits lay (positions h (position w)) (sizes h (size_w w)) \<Longrightarrow>
   isValidWidgetPlacement (load h w) lay \<and>
   1 \<le> width (size_w (load h w)) \<and> width (size_w (load h w)) \<le> 6 \<and>
   1 \<le> height (size_w (load h w)) \<and> height (size_w (load h w)) \<le> 6"
  by (simp add: fits_def isValidWidgetPlacement_def load_def Let_def)

lemma updateDashboardLayout_widgets:
  "widgets (fst (updateDashboardLayout now d nl h)) = widgets d"
  by (simp add: updateDashboardLayout_def Let_def split_beta adjustWidgetsToLayout_fst)

lemma updateDashboardLayout_single:
  assumes "widgets d = [w]"
  shows "updateDashboardLayout now d nl h =
    (d\<lparr>layout := \<lparr>columns = max 1 (min 12 (columns nl)), rows = max 1 (min 12 (rows nl)),
                   cellSize = \<lparr>width = max 100 (min 500 (width (cellSize nl))),
                               height = max 100 (min 500 (height (cellSize nl)))\<rparr>\<rparr>,
        widgets := [w], metadata := (metadata d)\<lparr>lastModified := JStr now\<rparr>\<rparr>,
     snd (adjustWidget
            \<lparr>columns = max 1 (min 12 (columns nl)), rows = max 1 (min 12 (rows nl)),
             cellSize = \<lparr>width = max 100 (min 500 (width (cellSize nl))),
                         height = max 100 (min 500 (height (cellSize nl)))\<rparr>\<rparr> w h))"
  using assms by (simp add: updateDashboardLayout_def Let_def split_beta adjustWidget_fields(1))

text \<open>
  Claim C9. When every widget of the document has, in the store of the call,
  coordinates of at least 0 and a width and a height of at least 1, then every
  widget of the document that \<open>updateDashboardLayout\<close> returns satisfies
  \<open>isValidWidgetPlacement\<close> for the layout of that document, in the store that the call
  leaves, with a width and a height of 1 to 6. The widgets may share records.
\<close>

theorem updateDashboardLayout_places_widgets:
  assumes "\<forall>w\<in>set (widgets dashboard).
             0 \<le> column (position (load h w)) \<and> 0 \<le> row (position (load h w)) \<and>
             1 \<le> width (size_w (load h w)) \<and> 1 \<le> height (size_w (load h w))"
    and "updateDashboardLayout now dashboard newLayout h = (dashboard', h')"
  shows "\<forall>w\<in>set (widgets dashboard').
           isValidWidgetPlacement (load h' w) (layout dashboard') \<and>
           1 \<le> width (size_w (load h' w)) \<and> width (size_w (load h' w)) \<le> 6 \<and>
           1 \<le> height (size_w (load h' w)) \<and> height (size_w (load h' w)) \<le> 6"
proof -
  define lay where "lay =
      \<lparr>columns = max 1 (min 12 (columns newLayout)), rows = max 1 (min 12 (rows newLayout)),
       cellSize = \<lparr>width = max 100 (min 500 (width (cellSize newLayout))),
                   height = max 100 (min 500 (height (cellSize newLayout)))\<rparr>\<rparr>"
  have lay: "1 \<le> columns lay" "1 \<le> rows lay" by (simp_all add: lay_def)
  from assms(2) have d':
    "widgets dashboard' = fst (adjustWidgetsToLayout (widgets dashboard) lay h)"
    "h' = snd (adjustWidgetsToLayout (widgets dashboard) lay h)"
    "layout dashboard' = lay"
    by (auto simp: updateDashboardLayout_def Let_def lay_def split_beta)
  from assms(1)
  have "\<forall>w\<in>set (widgets dashboard). wellformed (positions h (position w)) (sizes h (size_w w))"
    by (simp add: wellformed_def load_def)
  from adjustWidgetsToLayout_fits[OF lay this]
  have "\<forall>w\<in>set (widgets dashboard). fits lay (positions h' (position w)) (sizes h' (size_w w))"
    unfolding d' .
  then show ?thesis
    unfolding d'(1,3) adjustWidgetsToLayout_fst
    using fits_isValidWidgetPlacement[of lay h'] by blast
qed

text \<open>The theorem at the example: the widget at column 3, row 3, and the grid of 2 by 2.\<close>

theorem updateDashboardLayout_places_widgets_witness:
  "isValidWidgetPlacement
     (load (snd (updateDashboardLayout ''now'' example_dashboard (grid 2 2) example_store))
           example_widget)
     (grid 2 2)"
proof -
  let ?U = "updateDashboardLayout ''now'' example_dashboard (grid 2 2) example_store"
  have before: "\<forall>w\<in>set (widgets example_dashboard).
      0 \<le> column (position (load example_store w)) \<and>
      0 \<le> row (position (load example_store w)) \<and>
      1 \<le> width (size_w (load example_store w)) \<and>
      1 \<le> height (size_w (load example_store w))"
    by (simp add: example_dashboard_def example_store_def load_def)
  have call: "?U = (fst ?U, snd ?U)" by simp
  have lay: "layout (fst ?U) = grid 2 2"
    by (simp add: updateDashboardLayout_def Let_def split_beta grid_def)
  have "example_widget \<in> set (widgets (fst ?U))"
    unfolding updateDashboardLayout_widgets by (simp add: example_dashboard_def)
  with updateDashboardLayout_places_widgets[OF before call] lay show ?thesis by auto
qed

text \<open>
  Claim C2 fails on the code. The call of the example, on the document whose widget
  is at column 3, row 3: before the call the widget of the input reads column 3,
  row 3; after it the same widget of the input reads column 1, row 1. The widget
  returned has the addresses of the input widget for its position and its size, so a
  later assignment to the position of the returned widget shows in the input.
\<close>

theorem updateDashboardLayout_writes_input:
  "(case updateDashboardLayout ''now'' example_dashboard (grid 2 2) example_store of
      (d', h') \<Rightarrow>
        map (position \<circ> load example_store) (widgets example_dashboard)
          = [\<lparr>column = 3, row = 3\<rparr>] \<and>
        map (position \<circ> load h') (widgets example_dashboard) = [\<lparr>column = 1, row = 1\<rparr>] \<and>
        map position (widgets d') = map position (widgets example_dashboard) \<and>
        map size_w (widgets d') = map size_w (widgets example_dashboard) \<and>
        map (position \<circ> load (set_column (position (hd (widgets d'))) 0 h'))
            (widgets example_dashboard)
          = [\<lparr>column = 0, row = 1\<rparr>])"
proof -
  have ws: "widgets example_dashboard = [example_widget]"
    by (simp add: example_dashboard_def)
  let ?h' = "snd (adjustWidget (grid 2 2) example_widget example_store)"
  have call: "updateDashboardLayout ''now'' example_dashboard (grid 2 2) example_store
      = (example_dashboard\<lparr>layout := grid 2 2, widgets := [example_widget],
           metadata := (metadata example_dashboard)\<lparr>lastModified := JStr ''now''\<rparr>\<rparr>, ?h')"
    unfolding updateDashboardLayout_single[OF ws] by (simp add: grid_def)
  have before: "positions example_store 0 = \<lparr>column = 3, row = 3\<rparr>"
    by (simp add: example_store_def)
  have moved: "moved_position (grid 2 2) \<lparr>column = 3, row = 3\<rparr> \<lparr>width = 1, height = 1\<rparr>
                 = \<lparr>column = 1, row = 1\<rparr>"
    by (simp add: moved_position_def grid_def)
  have after: "positions ?h' 0 = \<lparr>column = 1, row = 1\<rparr>"
    by (simp add: adjustWidget_fields example_widget_def example_store_def moved)
  have written: "positions (set_column 0 0 ?h') 0 = \<lparr>column = 0, row = 1\<rparr>"
    by (simp add: set_column_fields after)
  show ?thesis
    unfolding call using before after written
    by (simp add: ws load_def example_widget_def)
qed

text \<open>The first two parts of the theorem: the input widget before and after the call.\<close>

theorem updateDashboardLayout_writes_input_witness:
  "load example_store example_widget
     \<noteq> load (snd (updateDashboardLayout ''now'' example_dashboard (grid 2 2) example_store))
          example_widget"
proof
  let ?U = "updateDashboardLayout ''now'' example_dashboard (grid 2 2) example_store"
  assume same: "load example_store example_widget = load (snd ?U) example_widget"
  have ws: "widgets example_dashboard = [example_widget]"
    by (simp add: example_dashboard_def)
  from updateDashboardLayout_writes_input
  have "position (load example_store example_widget) = \<lparr>column = 3, row = 3\<rparr>"
    and "position (load (snd ?U) example_widget) = \<lparr>column = 1, row = 1\<rparr>"
    unfolding ws by (simp_all add: split_beta)
  with same show False by simp
qed

lemma getAffectedWidgets_forEach_filter:
  "getAffectedWidgets_forEach h nl ws acc =
     \<lparr>unaffected = unaffected acc @ filter (\<lambda>w. impact_of h nl w = Unaffected) ws,
      affected = affected acc @ filter (\<lambda>w. impact_of h nl w = Affected) ws,
      removed = removed acc @ filter (\<lambda>w. impact_of h nl w = Removed) ws\<rparr>"
  by (induction ws arbitrary: acc) (auto simp: Let_def impact_of_def)

lemma mset_by_impact:
  "mset (filter (\<lambda>w. impact_of h nl w = Unaffected) ws)
     + mset (filter (\<lambda>w. impact_of h nl w = Affected) ws)
     + mset (filter (\<lambda>w. impact_of h nl w = Removed) ws) = mset ws"
proof (induction ws)
  case Nil
  then show ?case by simp
next
  case (Cons w ws)
  then show ?case by (cases "impact_of h nl w") simp_all
qed

text \<open>
  Claim C10. \<open>getAffectedWidgets\<close> returns the store it was given, and its three lists
  are the input list filtered by the class of each widget: the unaffected, the
  affected and the removed widgets, each list in the order of the input. As
  multisets the three lists add up to the input, and no widget is in two of them.
\<close>

theorem getAffectedWidgets_partition:
  "(case getAffectedWidgets ws cur nl h of
      (r, h') \<Rightarrow>
        h' = h \<and>
        unaffected r = filter (\<lambda>w. impact_of h nl w = Unaffected) ws \<and>
        affected r = filter (\<lambda>w. impact_of h nl w = Affected) ws \<and>
        removed r = filter (\<lambda>w. impact_of h nl w = Removed) ws \<and>
        mset (unaffected r) + mset (affected r) + mset (removed r) = mset ws \<and>
        subseq (unaffected r) ws \<and> subseq (affected r) ws \<and> subseq (removed r) ws \<and>
        set (unaffected r) \<inter> set (affected r) = {} \<and>
        set (unaffected r) \<inter> set (removed r) = {} \<and>
        set (affected r) \<inter> set (removed r) = {})"
proof -
  have lists: "fst (getAffectedWidgets ws cur nl h) =
     \<lparr>unaffected = filter (\<lambda>w. impact_of h nl w = Unaffected) ws,
      affected = filter (\<lambda>w. impact_of h nl w = Affected) ws,
      removed = filter (\<lambda>w. impact_of h nl w = Removed) ws\<rparr>"
    by (simp add: getAffectedWidgets_def getAffectedWidgets_forEach_filter)
  have store: "snd (getAffectedWidgets ws cur nl h) = h"
    by (simp add: getAffectedWidgets_def)
  have apart: "set (filter (\<lambda>w. impact_of h nl w = a) ws)
                 \<inter> set (filter (\<lambda>w. impact_of h nl w = b) ws) = {}" if "a \<noteq> b" for a b
    using that by auto
  show ?thesis
    using mset_by_impact[of h nl ws] apart[of Unaffected Affected]
      apart[of Unaffected Removed] apart[of Affected Removed]
    by (simp add: split_beta lists store)
qed

text \<open>
  The theorem at three widgets on the grid of 2 by 2, in a store where the widget at
  address 2 is at column 1, row 1 with 2 by 1 cells, the widget at address 3 is at
  column 0, row 0 with one cell, and every other is at column 3, row 3.
\<close>

theorem getAffectedWidgets_partition_witness:
  "fst (getAffectedWidgets
          [example_widget, example_widget\<lparr>position := 2, size_w := 2\<rparr>,
           example_widget\<lparr>position := 3, size_w := 3\<rparr>]
          (grid 4 4) (grid 2 2)
          (example_store\<lparr>
             positions := (positions example_store)
               (2 := \<lparr>column = 1, row = 1\<rparr>, 3 := \<lparr>column = 0, row = 0\<rparr>),
             sizes := (sizes example_store)(2 := \<lparr>width = 2, height = 1\<rparr>)\<rparr>))
     = \<lparr>unaffected = [example_widget\<lparr>position := 3, size_w := 3\<rparr>],
        affected = [example_widget\<lparr>position := 2, size_w := 2\<rparr>],
        removed = [example_widget]\<rparr>"
proof -
  let ?h = "example_store\<lparr>
             positions := (positions example_store)
               (2 := \<lparr>column = 1, row = 1\<rparr>, 3 := \<lparr>column = 0, row = 0\<rparr>),
             sizes := (sizes example_store)(2 := \<lparr>width = 2, height = 1\<rparr>)\<rparr>"
  let ?ws = "[example_widget, example_widget\<lparr>position := 2, size_w := 2\<rparr>,
              example_widget\<lparr>position := 3, size_w := 3\<rparr>]"
  let ?r = "fst (getAffectedWidgets ?ws (grid 4 4) (grid 2 2) ?h)"
  have classes: "impact_of ?h (grid 2 2) example_widget = Removed"
    "impact_of ?h (grid 2 2) (example_widget\<lparr>position := 2, size_w := 2\<rparr>) = Affected"
    "impact_of ?h (grid 2 2) (example_widget\<lparr>position := 3, size_w := 3\<rparr>) = Unaffected"
    by (simp_all add: impact_of_def example_widget_def example_store_def grid_def)
  from getAffectedWidgets_partition
         [where ws = ?ws and cur = "grid 4 4" and nl = "grid 2 2" and h = ?h]
  have lists: "unaffected ?r = filter (\<lambda>w. impact_of ?h (grid 2 2) w = Unaffected) ?ws"
    "affected ?r = filter (\<lambda>w. impact_of ?h (grid 2 2) w = Affected) ?ws"
    "removed ?r = filter (\<lambda>w. impact_of ?h (grid 2 2) w = Removed) ?ws"
    by (simp_all add: split_beta)
  show ?thesis
    by (rule AffectedWidgets.equality) (simp_all add: lists classes)
qed

lemma adjustWidget_elsewhere:
  "position w' \<noteq> p \<Longrightarrow> positions (snd (adjustWidget lay w' h)) p = positions h p"
  "size_w w' \<noteq> s \<Longrightarrow> sizes (snd (adjustWidget lay w' h)) s = sizes h s"
  by (simp_all add: adjustWidget_fields)

text \<open>
  On a layout of 2 by 2, a widget of one cell at column 1, row 1 stays as it is
  through the loop, and one at column 3, row 3 is at column 1, row 1 after it, when
  no other widget of the list shares its records.
\<close>

lemma adjustWidgetsToLayout_settled:
  assumes "columns lay = 2" "rows lay = 2"
  shows "\<forall>w'\<in>set ws. w' \<noteq> w \<longrightarrow> position w' \<noteq> position w \<and> size_w w' \<noteq> size_w w \<Longrightarrow>
    positions h (position w) = \<lparr>column = 1, row = 1\<rparr> \<Longrightarrow>
    sizes h (size_w w) = \<lparr>width = 1, height = 1\<rparr> \<Longrightarrow>
    positions (snd (adjustWidgetsToLayout ws lay h)) (position w) = \<lparr>column = 1, row = 1\<rparr> \<and>
    sizes (snd (adjustWidgetsToLayout ws lay h)) (size_w w) = \<lparr>width = 1, height = 1\<rparr>"
proof (induction ws arbitrary: h)
  case Nil
  then show ?case by simp
next
  case (Cons x xs)
  let ?h1 = "snd (adjustWidget lay x h)"
  have "positions ?h1 (position w) = \<lparr>column = 1, row = 1\<rparr> \<and>
        sizes ?h1 (size_w w) = \<lparr>width = 1, height = 1\<rparr>"
  proof (cases "x = w")
    case True
    with Cons.prems(2,3) assms show ?thesis
      by (simp add: adjustWidget_fields moved_position_def fitted_size_def)
  next
    case False
    with Cons.prems show ?thesis by (simp add: adjustWidget_elsewhere)
  qed
  with Cons.prems(1) show ?case
    unfolding adjustWidgetsToLayout_snd_Cons by (intro Cons.IH) simp_all
qed

lemma adjustWidgetsToLayout_corner:
  assumes "columns lay = 2" "rows lay = 2"
  shows "\<forall>w'\<in>set ws. w' \<noteq> w \<longrightarrow> position w' \<noteq> position w \<and> size_w w' \<noteq> size_w w \<Longrightarrow>
    w \<in> set ws \<Longrightarrow>
    positions h (position w) = \<lparr>column = 3, row = 3\<rparr> \<Longrightarrow>
    sizes h (size_w w) = \<lparr>width = 1, height = 1\<rparr> \<Longrightarrow>
    positions (snd (adjustWidgetsToLayout ws lay h)) (position w) = \<lparr>column = 1, row = 1\<rparr> \<and>
    sizes (snd (adjustWidgetsToLayout ws lay h)) (size_w w) = \<lparr>width = 1, height = 1\<rparr>"
proof (induction ws arbitrary: h)
  case Nil
  then show ?case by simp
next
  case (Cons x xs)
  let ?h1 = "snd (adjustWidget lay x h)"
  from Cons.prems(1)
  have apart: "\<forall>w'\<in>set xs. w' \<noteq> w \<longrightarrow> position w' \<noteq> position w \<and> size_w w' \<noteq> size_w w"
    by simp
  show ?case
  proof (cases "x = w")
    case True
    with Cons.prems(3,4) assms
    have "positions ?h1 (position w) = \<lparr>column = 1, row = 1\<rparr>"
      and "sizes ?h1 (size_w w) = \<lparr>width = 1, height = 1\<rparr>"
      by (simp_all add: adjustWidget_fields moved_position_def fitted_size_def)
    from adjustWidgetsToLayout_settled[OF assms apart this] show ?thesis
      unfolding adjustWidgetsToLayout_snd_Cons .
  next
    case False
    with Cons.prems have "w \<in> set xs"
      and "positions ?h1 (position w) = \<lparr>column = 3, row = 3\<rparr>"
      and "sizes ?h1 (size_w w) = \<lparr>width = 1, height = 1\<rparr>"
      by (simp_all add: adjustWidget_elsewhere)
    from Cons.IH[OF apart this] show ?thesis
      unfolding adjustWidgetsToLayout_snd_Cons .
  qed
qed

text \<open>
  Claim C7. A widget of the document at column 3, row 3, with a size of 1 by 1, whose
  records no other widget of the document shares, and a change of the layout from
  4 by 4 to 2 by 2: \<open>getAffectedWidgets\<close> puts the widget in \<open>removed\<close> and in no other
  list, and \<open>updateDashboardLayout\<close> returns it at column 1, row 1, with its size of
  1 by 1.
\<close>

theorem layout_shrink_removed_and_repositioned:
  assumes "w \<in> set (widgets d)"
    and "\<forall>w'\<in>set (widgets d). w' \<noteq> w \<longrightarrow> position w' \<noteq> position w \<and> size_w w' \<noteq> size_w w"
    and "positions h (position w) = \<lparr>column = 3, row = 3\<rparr>"
    and "sizes h (size_w w) = \<lparr>width = 1, height = 1\<rparr>"
    and "columns cur = 4" "rows cur = 4" "columns nl = 2" "rows nl = 2"
  shows "w \<in> set (removed (fst (getAffectedWidgets (widgets d) cur nl h))) \<and>
         w \<notin> set (affected (fst (getAffectedWidgets (widgets d) cur nl h))) \<and>
         w \<notin> set (unaffected (fst (getAffectedWidgets (widgets d) cur nl h))) \<and>
         (case updateDashboardLayout now d nl h of
            (d', h') \<Rightarrow>
              w \<in> set (widgets d') \<and>
              position (load h' w) = \<lparr>column = 1, row = 1\<rparr> \<and>
              size_w (load h' w) = \<lparr>width = 1, height = 1\<rparr>)"
proof -
  have "impact_of h nl w = Removed"
    using assms(3,7,8) by (simp add: impact_of_def)
  with assms(1) have classified:
    "w \<in> set (removed (fst (getAffectedWidgets (widgets d) cur nl h)))"
    "w \<notin> set (affected (fst (getAffectedWidgets (widgets d) cur nl h)))"
    "w \<notin> set (unaffected (fst (getAffectedWidgets (widgets d) cur nl h)))"
    by (simp_all add: getAffectedWidgets_def getAffectedWidgets_forEach_filter)
  define lay where "lay =
      \<lparr>columns = max 1 (min 12 (columns nl)), rows = max 1 (min 12 (rows nl)),
       cellSize = \<lparr>width = max 100 (min 500 (width (cellSize nl))),
                   height = max 100 (min 500 (height (cellSize nl)))\<rparr>\<rparr>"
  have lay: "columns lay = 2" "rows lay = 2"
    using assms(7,8) by (simp_all add: lay_def)
  let ?U = "updateDashboardLayout now d nl h"
  have call: "widgets (fst ?U) = widgets d"
    "snd ?U = snd (adjustWidgetsToLayout (widgets d) lay h)"
    by (simp_all add: updateDashboardLayout_def Let_def split_beta lay_def
        adjustWidgetsToLayout_fst)
  from adjustWidgetsToLayout_corner[OF lay assms(2,1,3,4)]
  have "position (load (snd ?U) w) = \<lparr>column = 1, row = 1\<rparr>"
    and "size_w (load (snd ?U) w) = \<lparr>width = 1, height = 1\<rparr>"
    unfolding call by (simp_all add: load_def)
  with assms(1) classified show ?thesis
    by (simp add: split_beta call(1))
qed

text \<open>The theorem at the example document and store.\<close>

theorem layout_shrink_removed_and_repositioned_witness:
  "removed (fst (getAffectedWidgets [example_widget] (grid 4 4) (grid 2 2) example_store))
     = [example_widget] \<and>
   load (snd (updateDashboardLayout ''now'' example_dashboard (grid 2 2) example_store))
        example_widget
     = \<lparr>id_w = ''widget-1'', type = ''text'', position = \<lparr>column = 1, row = 1\<rparr>,
        size_w = \<lparr>width = 1, height = 1\<rparr>, content = JObj [], config = JObj []\<rparr>"
proof -
  have "example_widget \<in> set (widgets example_dashboard)"
    and "\<forall>w'\<in>set (widgets example_dashboard). w' \<noteq> example_widget \<longrightarrow>
           position w' \<noteq> position example_widget \<and> size_w w' \<noteq> size_w example_widget"
    and "positions example_store (position example_widget) = \<lparr>column = 3, row = 3\<rparr>"
    and "sizes example_store (size_w example_widget) = \<lparr>width = 1, height = 1\<rparr>"
    and "columns (grid 4 4) = 4" "rows (grid 4 4) = 4" "columns (grid 2 2) = 2" "rows (grid 2 2) = 2"
    by (simp_all add: example_dashboard_def example_store_def grid_def)
  note at = layout_shrink_removed_and_repositioned[OF this, of "''now''"]
  let ?U = "updateDashboardLayout ''now'' example_dashboard (grid 2 2) example_store"
  from at have "position (load (snd ?U) example_widget) = \<lparr>column = 1, row = 1\<rparr>"
    and "size_w (load (snd ?U) example_widget) = \<lparr>width = 1, height = 1\<rparr>"
    by (simp_all add: split_beta)
  then have moved: "load (snd ?U) example_widget
     = \<lparr>id_w = ''widget-1'', type = ''text'', position = \<lparr>column = 1, row = 1\<rparr>,
        size_w = \<lparr>width = 1, height = 1\<rparr>, content = JObj [], config = JObj []\<rparr>"
    by (simp add: load_def example_widget_def)
  have "impact_of example_store (grid 2 2) example_widget = Removed"
    by (simp add: impact_of_def example_store_def grid_def)
  then have "removed (fst (getAffectedWidgets [example_widget] (grid 4 4) (grid 2 2)
                 example_store)) = [example_widget]"
    by (simp add: getAffectedWidgets_def getAffectedWidgets_forEach_filter)
  with moved show ?thesis by simp
qed

subsection \<open>Normalisation\<close>

lemma normalizeLayout_wide:
  "normalizeLayout strToNum (Some (wide_layout r))
     = Inr \<lparr>columns = 12, rows = (if r = 0 then 4 else max 1 (min 12 r)),
            cellSize = \<lparr>width = 200, height = 150\<rparr>\<rparr>"
  by (simp add: normalizeLayout_def wide_layout_def)

text \<open>
  Claim C1 fails on the code. On a layout with 99 columns and \<open>r\<close> rows,
  \<open>deserializeLayout\<close> and \<open>validateAndNormalizeDashboard\<close> clamp the columns to 12, and
  clamp the rows into 1 to 12 unless \<open>r\<close> is 0: then \<^verbatim>\<open>Number(0) || 4\<close> is 4 and the
  rows become 4, not 1. \<open>updateDashboardLayout\<close> clamps the same layout to 12 by 1.
\<close>

theorem normalize_rows_zero_defaulted:
  "deserializeLayout strToNum (Encoding (wide_layout r))
     = Inr \<lparr>columns = 12, rows = (if r = 0 then 4 else max 1 (min 12 r)),
            cellSize = \<lparr>width = 200, height = 150\<rparr>\<rparr> \<and>
   validateAndNormalizeDashboard strToNum nowCreated nowModified (wide_document r)
     = Inr \<lparr>version = ''1.0'',
            layout = \<lparr>columns = 12, rows = (if r = 0 then 4 else max 1 (min 12 r)),
                      cellSize = \<lparr>width = 200, height = 150\<rparr>\<rparr>,
            widgets = [], metadata = example_metadata\<rparr> \<and>
   layout (fst (updateDashboardLayout now d
                  \<lparr>columns = 99, rows = 0, cellSize = \<lparr>width = 200, height = 150\<rparr>\<rparr> h))
     = \<lparr>columns = 12, rows = 1, cellSize = \<lparr>width = 200, height = 150\<rparr>\<rparr>"
proof -
  have shape: "truthy (Some (wide_layout r))" "typeof_object (Some (wide_layout r))"
    by (simp_all add: wide_layout_def)
  have fragment: "deserializeLayout strToNum (Encoding (wide_layout r))
     = Inr \<lparr>columns = 12, rows = (if r = 0 then 4 else max 1 (min 12 r)),
            cellSize = \<lparr>width = 200, height = 150\<rparr>\<rparr>"
    unfolding deserializeLayout_def using shape
    by (simp add: rethrow_def normalizeLayout_wide)
  have metadata: "normalizeMetadata nowCreated nowModified
      (Some (json_of_metadata example_metadata)) = example_metadata"
    by (simp add: normalizeMetadata_def json_of_metadata_def example_metadata_def)
  have meta_shape: "truthy (Some (json_of_metadata example_metadata))"
    "typeof_object (Some (json_of_metadata example_metadata))"
    by (simp_all add: json_of_metadata_def)
  have document: "validateAndNormalizeDashboard strToNum nowCreated nowModified (wide_document r)
     = Inr \<lparr>version = ''1.0'',
            layout = \<lparr>columns = 12, rows = (if r = 0 then 4 else max 1 (min 12 r)),
                      cellSize = \<lparr>width = 200, height = 150\<rparr>\<rparr>,
            widgets = [], metadata = example_metadata\<rparr>"
    using shape meta_shape
    by (simp add: validateAndNormalizeDashboard_def Let_def wide_document_def
        normalizeLayout_wide metadata)
  have migration: "layout (fst (updateDashboardLayout now d
                  \<lparr>columns = 99, rows = 0, cellSize = \<lparr>width = 200, height = 150\<rparr>\<rparr> h))
     = \<lparr>columns = 12, rows = 1, cellSize = \<lparr>width = 200, height = 150\<rparr>\<rparr>"
    by (simp add: updateDashboardLayout_def Let_def split_beta)
  from fragment document migration show ?thesis by (intro conjI)
qed

text \<open>The theorem at 0 rows: the layout that comes back has 4 rows.\<close>

theorem normalize_rows_zero_defaulted_witness:
  "deserializeLayout (\<lambda>s. None) (Encoding (wide_layout 0))
     = Inr \<lparr>columns = 12, rows = 4, cellSize = \<lparr>width = 200, height = 150\<rparr>\<rparr> \<and>
   deserializeLayout (\<lambda>s. None) (Encoding (wide_layout (-3)))
     = Inr \<lparr>columns = 12, rows = 1, cellSize = \<lparr>width = 200, height = 150\<rparr>\<rparr>"
  using normalize_rows_zero_defaulted[where r = 0 and strToNum = "\<lambda>s. None"]
    normalize_rows_zero_defaulted[where r = "-3" and strToNum = "\<lambda>s. None"]
  by simp

lemma Number_of_array_throws:
  "isl (Number_of_array strToNum xs) \<longleftrightarrow> list_ex text_throws xs"
  by (induction strToNum xs rule: Number_of_array.induct) simp_all

lemma Number_throws: "isl (Number strToNum x) \<longleftrightarrow> \<not> convertible x"
  by (induction strToNum x rule: Number.induct) (simp_all add: Number_of_array_throws)

lemma Number_returns: "convertible x \<Longrightarrow> \<exists>n. Number strToNum x = Inr n"
  using Number_throws[of strToNum x] by (cases "Number strToNum x") auto

lemma Number_fails: "\<not> convertible x \<Longrightarrow> \<exists>e. Number strToNum x = Inl e"
  using Number_throws[of strToNum x] by (cases "Number strToNum x") auto

lemma normalizeLayout_convertible:
  "(\<exists>l. normalizeLayout strToNum x = Inr l) \<longleftrightarrow> convertible_layout x"
proof
  assume "\<exists>l. normalizeLayout strToNum x = Inr l"
  then have "\<not> isl (Number strToNum (property x ''columns''))"
    "\<not> isl (Number strToNum (property x ''rows''))"
    "\<not> isl (Number strToNum (property (property x ''cellSize'') ''width''))"
    "\<not> isl (Number strToNum (property (property x ''cellSize'') ''height''))"
    by (auto simp: normalizeLayout_def split: sum.splits)
  then show "convertible_layout x" by (simp add: Number_throws convertible_layout_def)
next
  assume "convertible_layout x"
  then obtain c r w h where
    "Number strToNum (property x ''columns'') = Inr c"
    "Number strToNum (property x ''rows'') = Inr r"
    "Number strToNum (property (property x ''cellSize'') ''width'') = Inr w"
    "Number strToNum (property (property x ''cellSize'') ''height'') = Inr h"
    unfolding convertible_layout_def
    by (meson Number_returns)
  then show "\<exists>l. normalizeLayout strToNum x = Inr l" by (simp add: normalizeLayout_def)
qed

lemma normalizeWidget_shaped:
  "(\<exists>w. normalizeWidget strToNum widget i = Inr w)
     \<longleftrightarrow> shaped_widget widget \<and> convertible_widget widget"
proof
  assume "\<exists>w. normalizeWidget strToNum widget i = Inr w"
  then have shaped: "shaped_widget widget"
    and "\<not> isl (Number strToNum (property (property (Some widget) ''position'') ''column''))"
    "\<not> isl (Number strToNum (property (property (Some widget) ''position'') ''row''))"
    "\<not> isl (Number strToNum (property (property (Some widget) ''size'') ''width''))"
    "\<not> isl (Number strToNum (property (property (Some widget) ''size'') ''height''))"
    by (auto simp: normalizeWidget_def shaped_widget_def Let_def split: sum.splits if_splits)
  then show "shaped_widget widget \<and> convertible_widget widget"
    by (simp add: Number_throws convertible_widget_def)
next
  assume a: "shaped_widget widget \<and> convertible_widget widget"
  then obtain c r w h where
    "Number strToNum (property (property (Some widget) ''position'') ''column'') = Inr c"
    "Number strToNum (property (property (Some widget) ''position'') ''row'') = Inr r"
    "Number strToNum (property (property (Some widget) ''size'') ''width'') = Inr w"
    "Number strToNum (property (property (Some widget) ''size'') ''height'') = Inr h"
    unfolding convertible_widget_def Let_def
    by (meson Number_returns)
  with a show "\<exists>w. normalizeWidget strToNum widget i = Inr w"
    by (simp add: normalizeWidget_def shaped_widget_def Let_def)
qed

lemma normalizeWidgets_shaped:
  "(\<exists>ws. normalizeWidgets strToNum xs i = Inr ws)
     \<longleftrightarrow> list_all shaped_widget xs \<and> list_all convertible_widget xs"
proof (induction xs arbitrary: i)
  case Nil
  then show ?case by simp
next
  case (Cons x xs)
  show ?case
  proof (cases "normalizeWidget strToNum x i")
    case (Inl e)
    with normalizeWidget_shaped[of strToNum x i] show ?thesis by auto
  next
    case (Inr w)
    with normalizeWidget_shaped[of strToNum x i]
    have "shaped_widget x \<and> convertible_widget x" by auto
    with Inr Cons.IH[of "Suc i"] show ?thesis
      by (cases "normalizeWidgets strToNum xs (Suc i)") auto
  qed
qed

lemma validateAndNormalizeDashboard_shaped:
  "(\<exists>d. validateAndNormalizeDashboard strToNum t1 t2 v = Inr d)
     \<longleftrightarrow> shaped_dashboard v \<and> convertible_dashboard v"
proof -
  let ?xs = "array_elements (property (Some v) ''widgets'')"
  let ?l = "property (Some v) ''layout''"
  show ?thesis
  proof (cases "normalizeLayout strToNum ?l")
    case (Inl e)
    with normalizeLayout_convertible[of strToNum ?l] have "\<not> convertible_layout ?l" by auto
    with Inl show ?thesis
      by (auto simp: validateAndNormalizeDashboard_def convertible_dashboard_def Let_def)
  next
    case l: (Inr l)
    with normalizeLayout_convertible[of strToNum ?l] have layout: "convertible_layout ?l" by auto
    show ?thesis
    proof (cases "normalizeWidgets strToNum ?xs 0")
      case (Inl e)
      with normalizeWidgets_shaped[of strToNum ?xs 0]
      have "\<not> (list_all shaped_widget ?xs \<and> list_all convertible_widget ?xs)" by auto
      with Inl l show ?thesis
        by (auto simp: validateAndNormalizeDashboard_def shaped_dashboard_def
            convertible_dashboard_def Let_def)
    next
      case (Inr ws)
      with normalizeWidgets_shaped[of strToNum ?xs 0]
      have "list_all shaped_widget ?xs \<and> list_all convertible_widget ?xs" by auto
      with Inr l layout show ?thesis
        by (auto simp: validateAndNormalizeDashboard_def shaped_dashboard_def
            convertible_dashboard_def Let_def)
    qed
  qed
qed

text \<open>
  Claim C3, as the code has it. \<open>validateDashboardJSON\<close> always returns a result: its
  errors are the message of the failure of \<^verbatim>\<open>JSON.parse\<close> or of
  \<open>validateAndNormalizeDashboard\<close>, if there is one, and it reports the text valid
  exactly when there is none, which is exactly when the text encodes a value of the
  shape that \<open>validateAndNormalizeDashboard\<close> asks for, with numbers that
  \<^verbatim>\<open>Number(...)\<close> converts. The bounds and the overlaps of the widgets have no part
  in it.
\<close>

theorem validateDashboardJSON_checks_shape_only:
  "errors (validateDashboardJSON strToNum t1 t2 jsonString) =
     (case JSON_parse jsonString of
        Inl (Error msg) \<Rightarrow> [msg]
      | Inr v \<Rightarrow>
          (case validateAndNormalizeDashboard strToNum t1 t2 v of
             Inl (Error msg) \<Rightarrow> [msg]
           | Inr d \<Rightarrow> [])) \<and>
   isValid (validateDashboardJSON strToNum t1 t2 jsonString)
     = (errors (validateDashboardJSON strToNum t1 t2 jsonString) = []) \<and>
   length (errors (validateDashboardJSON strToNum t1 t2 jsonString)) \<le> 1 \<and>
   isValid (validateDashboardJSON strToNum t1 t2 jsonString)
     = (\<exists>v. jsonString = Encoding v \<and> shaped_dashboard v \<and> convertible_dashboard v)"
proof -
  let ?r = "validateDashboardJSON strToNum t1 t2 jsonString"
  have 1: "errors ?r =
     (case JSON_parse jsonString of
        Inl (Error msg) \<Rightarrow> [msg]
      | Inr v \<Rightarrow>
          (case validateAndNormalizeDashboard strToNum t1 t2 v of
             Inl (Error msg) \<Rightarrow> [msg]
           | Inr d \<Rightarrow> []))"
    by (simp add: validateDashboardJSON_def Let_def)
  have 2: "isValid ?r = (errors ?r = [])"
    by (simp add: validateDashboardJSON_def Let_def)
  have 3: "length (errors ?r) \<le> 1"
    unfolding 1 by (simp split: sum.split error.split)
  have 4: "isValid ?r
      = (\<exists>v. jsonString = Encoding v \<and> shaped_dashboard v \<and> convertible_dashboard v)"
  proof (cases jsonString)
    case (Malformed m)
    then show ?thesis unfolding 2 1 by simp
  next
    case (Encoding v)
    show ?thesis
    proof (cases "validateAndNormalizeDashboard strToNum t1 t2 v")
      case (Inl e)
      with validateAndNormalizeDashboard_shaped[of strToNum t1 t2 v]
      have "\<not> (shaped_dashboard v \<and> convertible_dashboard v)" by auto
      with Inl Encoding show ?thesis unfolding 2 1 by (cases e) simp
    next
      case (Inr d)
      with validateAndNormalizeDashboard_shaped[of strToNum t1 t2 v]
      have "shaped_dashboard v \<and> convertible_dashboard v" by auto
      with Inr Encoding show ?thesis unfolding 2 1 by simp
    qed
  qed
  from 1 2 3 4 show ?thesis by blast
qed

text \<open>
  The theorem at a text that is no JSON, at the text of a number, and at a document
  whose columns are an object with a property \<^verbatim>\<open>toString\<close>.
\<close>

theorem validateDashboardJSON_checks_shape_only_witness:
  "validateDashboardJSON (\<lambda>s. None) [] [] (Malformed ''Unexpected end of JSON input'')
     = \<lparr>isValid = False, errors = [''Unexpected end of JSON input'']\<rparr> \<and>
   validateDashboardJSON (\<lambda>s. None) [] [] (Encoding (JNum 7))
     = \<lparr>isValid = False, errors = [''Invalid dashboard data: must be an object'']\<rparr> \<and>
   validateDashboardJSON (\<lambda>s. None) [] [] (Encoding opaque_document)
     = \<lparr>isValid = False, errors = [''Cannot convert object to primitive value'']\<rparr> \<and>
   shaped_dashboard opaque_document \<and> \<not> convertible_dashboard opaque_document"
proof -
  note a = validateDashboardJSON_checks_shape_only
      [of "\<lambda>s. None" "[]" "[]" "Malformed ''Unexpected end of JSON input''"]
  note b = validateDashboardJSON_checks_shape_only
      [of "\<lambda>s. None" "[]" "[]" "Encoding (JNum 7)"]
  note c = validateDashboardJSON_checks_shape_only
      [of "\<lambda>s. None" "[]" "[]" "Encoding opaque_document"]
  have "validateDashboardJSON (\<lambda>s. None) [] [] (Malformed ''Unexpected end of JSON input'')
     = \<lparr>isValid = False, errors = [''Unexpected end of JSON input'']\<rparr>"
    by (rule ValidationResult.equality) (use a in simp_all)
  moreover
  have "validateDashboardJSON (\<lambda>s. None) [] [] (Encoding (JNum 7))
     = \<lparr>isValid = False, errors = [''Invalid dashboard data: must be an object'']\<rparr>"
    by (rule ValidationResult.equality)
       (use b in \<open>simp_all add: validateAndNormalizeDashboard_def\<close>)
  moreover
  have opaque: "validateAndNormalizeDashboard (\<lambda>s. None) [] [] opaque_document
      = Inl (Error ''Cannot convert object to primitive value'')"
    by (simp add: validateAndNormalizeDashboard_def opaque_document_def Let_def
        normalizeLayout_def json_of_metadata_def cannot_convert_def)
  have "validateDashboardJSON (\<lambda>s. None) [] [] (Encoding opaque_document)
     = \<lparr>isValid = False, errors = [''Cannot convert object to primitive value'']\<rparr>"
    by (rule ValidationResult.equality) (use c opaque in simp_all)
  moreover
  have "shaped_dashboard opaque_document"
    by (simp add: shaped_dashboard_def opaque_document_def json_of_metadata_def)
  moreover
  have "\<not> convertible_dashboard opaque_document"
    by (simp add: convertible_dashboard_def convertible_layout_def opaque_document_def)
  ultimately show ?thesis by (intro conjI)
qed

text \<open>
  Claim C3, as it is stated, fails at a document of the right shape whose widgets a
  and b overlap and whose widget c lies outside the grid: \<open>validateDashboardJSON\<close>
  reports it valid, with no error, while the strict validator of utils.ts rejects
  the normalised document, for the bounds and for the overlap.
\<close>

theorem validateDashboardJSON_accepts_clash:
  "validateDashboardJSON (\<lambda>s. None) [] [] (Encoding clash_document)
     = \<lparr>isValid = True, errors = []\<rparr> \<and>
   (case validateAndNormalizeDashboard (\<lambda>s. None) [] [] clash_document of
      Inl e \<Rightarrow> False
    | Inr d \<Rightarrow>
        doWidgetsOverlap (widgets d ! 0) (widgets d ! 1) \<and>
        footprint (widgets d ! 0) \<inter> footprint (widgets d ! 1) \<noteq> {} \<and>
        \<not> isValidWidgetPlacement (widgets d ! 2) (layout d) \<and>
        validateDashboardData d = Inl (Error ''Widget c is placed outside grid bounds'') \<and>
        validateOverlaps (widgets d) = Inl (Error ''Widgets a and b overlap''))"
proof -
  have cell: "(1, 1) \<in> footprint w \<inter> footprint w'"
    if "position w = \<lparr>column = 0, row = 0\<rparr>" "size_w w = \<lparr>width = 2, height = 2\<rparr>"
      "position w' = \<lparr>column = 1, row = 1\<rparr>" "size_w w' = \<lparr>width = 2, height = 2\<rparr>"
    for w w' :: Widget
    using that by (simp add: footprint_def)
  have normalized: "validateAndNormalizeDashboard (\<lambda>s. None) [] [] clash_document
    = Inr \<lparr>version = ''1.0'', layout = grid 4 4,
           widgets =
             [\<lparr>id_w = ''a'', type = ''text'', position = \<lparr>column = 0, row = 0\<rparr>,
               size_w = \<lparr>width = 2, height = 2\<rparr>, content = JObj [], config = JObj []\<rparr>,
              \<lparr>id_w = ''b'', type = ''text'', position = \<lparr>column = 1, row = 1\<rparr>,
               size_w = \<lparr>width = 2, height = 2\<rparr>, content = JObj [], config = JObj []\<rparr>,
              \<lparr>id_w = ''c'', type = ''text'', position = \<lparr>column = 9, row = 9\<rparr>,
               size_w = \<lparr>width = 2, height = 2\<rparr>, content = JObj [], config = JObj []\<rparr>],
           metadata = example_metadata\<rparr>"
    by (simp add: validateAndNormalizeDashboard_def clash_document_def clash_widget_def
        normalizeWidget_def normalizeLayout_def normalizeMetadata_def Let_def
        json_of_layout_def json_of_metadata_def grid_def example_metadata_def)
  have "footprint
          \<lparr>id_w = ''a'', type = ''text'', position = \<lparr>column = 0, row = 0\<rparr>,
           size_w = \<lparr>width = 2, height = 2\<rparr>, content = JObj [], config = JObj []\<rparr>
        \<inter> footprint
          \<lparr>id_w = ''b'', type = ''text'', position = \<lparr>column = 1, row = 1\<rparr>,
           size_w = \<lparr>width = 2, height = 2\<rparr>, content = JObj [], config = JObj []\<rparr> \<noteq> {}"
    using cell[of "\<lparr>id_w = ''a'', type = ''text'', position = \<lparr>column = 0, row = 0\<rparr>,
           size_w = \<lparr>width = 2, height = 2\<rparr>, content = JObj [], config = JObj []\<rparr>"
         "\<lparr>id_w = ''b'', type = ''text'', position = \<lparr>column = 1, row = 1\<rparr>,
           size_w = \<lparr>width = 2, height = 2\<rparr>, content = JObj [], config = JObj []\<rparr>"]
    by auto
  then show ?thesis
    by (simp add: validateDashboardJSON_def Let_def normalized doWidgetsOverlap_def
        isValidWidgetPlacement_def validateDashboardData_def grid_def)
qed

lemma normalizeWidget_json_of_widget:
  assumes "widget_in_range w" "plain_widget w"
  shows "normalizeWidget strToNum (json_of_widget w) i = Inr w"
  using assms
  by (simp add: normalizeWidget_def json_of_widget_def widget_in_range_def plain_widget_def
      Let_def)

lemma normalizeWidgets_json_of_widget:
  "list_all widget_in_range ws \<Longrightarrow> list_all plain_widget ws \<Longrightarrow>
   normalizeWidgets strToNum (map json_of_widget ws) i = Inr ws"
  by (induction ws arbitrary: i) (simp_all add: normalizeWidget_json_of_widget)

lemma normalizeLayout_json_of_layout:
  "layout_in_range l \<Longrightarrow> normalizeLayout strToNum (Some (json_of_layout l)) = Inr l"
  by (simp add: normalizeLayout_def json_of_layout_def layout_in_range_def)

lemma normalizeMetadata_json_of_metadata:
  "plain_metadata m \<Longrightarrow> normalizeMetadata t1 t2 (Some (json_of_metadata m)) = m"
  by (auto simp: normalizeMetadata_def json_of_metadata_def plain_metadata_def)

text \<open>
  Claim C4, as the code has it. \<open>deserializeDashboard\<close> gives back a document that
  was serialised when the document satisfies the invariants and, besides, has a
  version, widget ids and widget types that are not empty, truthy \<^verbatim>\<open>content\<close> and
  \<^verbatim>\<open>config\<close>, and metadata of the five fields only, each but the description not
  empty.
\<close>

theorem deserialize_serialize_plain:
  assumes "spec_invariants d"
    and "version d \<noteq> []"
    and "list_all plain_widget (widgets d)"
    and "plain_metadata (metadata d)"
  shows "deserializeDashboard strToNum t1 t2 (serializeDashboard d) = Inr d"
proof -
  let ?j = "Some (json_of_dashboard d)"
  from assms(1) have range: "layout_in_range (layout d)" "list_all widget_in_range (widgets d)"
    by (simp_all add: spec_invariants_def)
  have fields:
    "property ?j ''version'' = Some (JStr (version d))"
    "property ?j ''layout'' = Some (json_of_layout (layout d))"
    "property ?j ''widgets'' = Some (JArr (map json_of_widget (widgets d)))"
    "property ?j ''metadata'' = Some (json_of_metadata (metadata d))"
    by (simp_all add: json_of_dashboard_def)
  have objects:
    "truthy ?j" "typeof_object ?j"
    "truthy (Some (json_of_layout (layout d)))"
    "typeof_object (Some (json_of_layout (layout d)))"
    "truthy (Some (json_of_metadata (metadata d)))"
    "typeof_object (Some (json_of_metadata (metadata d)))"
    by (simp_all add: json_of_dashboard_def json_of_layout_def json_of_metadata_def)
  have "validateAndNormalizeDashboard strToNum t1 t2 (json_of_dashboard d) = Inr d"
    unfolding validateAndNormalizeDashboard_def Let_def fields
    using objects assms(2)
    by (simp add: normalizeWidgets_json_of_widget[OF range(2) assms(3)]
        normalizeLayout_json_of_layout[OF range(1)]
        normalizeMetadata_json_of_metadata[OF assms(4)])
  then show ?thesis
    by (simp add: deserializeDashboard_def serializeDashboard_def JSON_stringify_def
        rethrow_def)
qed

lemma sample_dashboard_invariants: "spec_invariants sample_dashboard"
  by (simp add: sample_dashboard_def spec_invariants_def layout_in_range_def
      widget_in_range_def isValidWidgetPlacement_def doWidgetsOverlap_def test_widget_def
      grid_def)

text \<open>The theorem at the sample document of two widgets.\<close>

theorem deserialize_serialize_plain_witness:
  "deserializeDashboard (\<lambda>s. None) [] [] (serializeDashboard sample_dashboard)
     = Inr sample_dashboard"
proof -
  have "version sample_dashboard \<noteq> []"
    and "list_all plain_widget (widgets sample_dashboard)"
    and "plain_metadata (metadata sample_dashboard)"
    by (simp_all add: sample_dashboard_def plain_widget_def plain_metadata_def
        test_widget_def example_metadata_def)
  from deserialize_serialize_plain[OF sample_dashboard_invariants this]
  show ?thesis .
qed

text \<open>
  Claim C4, as it is stated, fails at a document within all four invariants whose
  metadata has a field of the open-ended extension: the document that comes back
  has lost that field.
\<close>

theorem deserialize_serialize_drops_extension:
  "spec_invariants tagged_dashboard \<and>
   deserializeDashboard (\<lambda>s. None) [] [] (serializeDashboard tagged_dashboard)
     = Inr sample_dashboard \<and>
   sample_dashboard \<noteq> tagged_dashboard"
proof -
  have invariants: "spec_invariants tagged_dashboard"
    using sample_dashboard_invariants by (simp add: spec_invariants_def tagged_dashboard_def)
  have "validateAndNormalizeDashboard (\<lambda>s. None) [] [] (json_of_dashboard tagged_dashboard)
     = Inr sample_dashboard"
    by (simp add: validateAndNormalizeDashboard_def Let_def json_of_dashboard_def
        json_of_layout_def json_of_widget_def json_of_metadata_def normalizeWidget_def
        normalizeLayout_def normalizeMetadata_def tagged_dashboard_def sample_dashboard_def
        test_widget_def example_metadata_def grid_def)
  then have returned: "deserializeDashboard (\<lambda>s. None) [] [] (serializeDashboard tagged_dashboard)
     = Inr sample_dashboard"
    by (simp add: deserializeDashboard_def serializeDashboard_def JSON_stringify_def
        rethrow_def)
  have "extension (metadata sample_dashboard) \<noteq> extension (metadata tagged_dashboard)"
    by (simp add: tagged_dashboard_def sample_dashboard_def example_metadata_def)
  then have "sample_dashboard \<noteq> tagged_dashboard" by auto
  with invariants returned show ?thesis by simp
qed


end
